theory Spec2Isabelle
  imports Complex_Main "HOL-Library.Sublist" "HOL-Library.AList"
begin

section \<open>JavaScript values\<close>

text \<open>
  The values the relay handles are what \<^verbatim>\<open>JSON.parse\<close> returns and what object
  literals hold: null, booleans, numbers, strings, arrays and objects. A number is a
  double: a finite one is a rational, and \<^verbatim>\<open>JSON.parse\<close> of an overflowing literal
  gives an infinity. An object keeps its keys in insertion order, each key once.
  A missing property reads as \<^verbatim>\<open>undefined\<close>, which is \<open>None\<close> here.
\<close>

datatype js_number = Finite rat | Infinity bool

datatype json =
    JNull
  | JBool bool
  | JNum js_number
  | JStr string
  | JArr "json list"
  | JObj "(string \<times> json) list"

type_synonym js_object = "(string \<times> json) list"

text \<open>Truthiness, as \<^verbatim>\<open>!x\<close> and \<^verbatim>\<open>x || y\<close> test it.\<close>

fun truthy :: "json option \<Rightarrow> bool" where
  "truthy None = False"
| "truthy (Some JNull) = False"
| "truthy (Some (JBool b)) = b"
| "truthy (Some (JNum (Finite q))) = (q \<noteq> 0)"
| "truthy (Some (JNum (Infinity _))) = True"
| "truthy (Some (JStr s)) = (s \<noteq> [])"
| "truthy (Some (JArr _)) = True"
| "truthy (Some (JObj _)) = True"

text \<open>Property read \<^verbatim>\<open>o.k\<close> on an object literal.\<close>

definition get_prop :: "js_object \<Rightarrow> string \<Rightarrow> json option" where
  "get_prop obj k = map_of obj k"

text \<open>
  Object spread \<^verbatim>\<open>{...base, ...extra}\<close>: the properties of \<open>extra\<close> are assigned in
  order; a key that exists keeps its position and takes the new value.
\<close>

definition spread :: "js_object \<Rightarrow> js_object \<Rightarrow> js_object" where
  "spread base extra = foldl (\<lambda>obj kv. AList.update (fst kv) (snd kv) obj) base extra"

text \<open>\<^verbatim>\<open>String.prototype.includes\<close>: the pattern occurs as a contiguous substring.\<close>

fun str_includes :: "string \<Rightarrow> string \<Rightarrow> bool" where
  "str_includes [] pat = (pat = [])"
| "str_includes (c # cs) pat = (prefix pat (c # cs) \<or> str_includes cs pat)"

text \<open>
  A character of \<^typ>\<open>string\<close> stands for a UTF-16 code unit below 256, that is, a code
  point of Basic Latin or the Latin-1 Supplement; strings with other code units are
  outside the model. On these, \<^verbatim>\<open>String.prototype.toLowerCase\<close> maps each character
  by itself: the code points 65 to 90 (A to Z), 192 to 214 and 216 to 222 (the capital
  letters of Latin-1; 215 is the multiplication sign) go to the code point 32 higher,
  every other one is unchanged.
\<close>

definition is_capital :: "nat \<Rightarrow> bool" where
  "is_capital n = (65 \<le> n \<and> n \<le> 90 \<or> 192 \<le> n \<and> n \<le> 214 \<or> 216 \<le> n \<and> n \<le> 222)"

definition lower_char :: "char \<Rightarrow> char" where
  "lower_char c =
     (let n = (of_char c :: nat) in if is_capital n then char_of (n + 32) else c)"

definition toLowerCase :: "string \<Rightarrow> string" where
  "toLowerCase s = map lower_char s"

section \<open>Configuration\<close>

text \<open>
  The module \<^verbatim>\<open>api-config\<close> is required by both programs and read only; its
  fields are the ones the functions below use.
\<close>

record filters =
  skipOwnMessages :: bool
  skipGroupMessages :: bool
  allowedSenders :: "string list"
  requiredKeywords :: "string list"

record api_config =
  enabled :: bool
  endpoint :: string
  apiKey :: string
  headers :: "(string \<times> string) list"
  timeout :: nat
  retryAttempts :: nat
  retryDelay :: nat
  filters :: filters
  logSuccess :: bool
  logErrors :: bool
  debug :: bool

section \<open>Filter engine\<close>

text \<open>
  \<^verbatim>\<open>shouldForwardMessage(sender, message, additionalData)\<close>, the same text in both
  programs: five guarded \<^verbatim>\<open>return false\<close> statements in sequence, then
  \<^verbatim>\<open>return true\<close>. It reads the configuration and its arguments and does nothing else.
\<close>

definition shouldForwardMessage :: "api_config \<Rightarrow> string \<Rightarrow> string \<Rightarrow> js_object \<Rightarrow> bool" where
  "shouldForwardMessage apiConfig sender message additionalData =
     (let fs = filters apiConfig in
      if \<not> enabled apiConfig then False
      else if skipOwnMessages fs \<and> truthy (get_prop additionalData ''isFromMe'') then False
      else if skipGroupMessages fs \<and> get_prop additionalData ''chatType'' = Some (JStr ''group'') then False
      else if length (allowedSenders fs) > 0 \<and> sender \<notin> set (allowedSenders fs) then False
      else if length (requiredKeywords fs) > 0 then
        (let hasKeyword =
               list_ex (\<lambda>keyword. str_includes (toLowerCase message) (toLowerCase keyword))
                 (requiredKeywords fs)
         in if \<not> hasKeyword then False else True)
      else True)"

text \<open>
  The same function with its exits told apart: \<open>Some r\<close> when the call leaves by the
  \<^verbatim>\<open>return false\<close> that the guard \<open>r\<close> protects, \<open>None\<close> when it reaches the final
  \<^verbatim>\<open>return true\<close>. The guards are named after the comments above them in the source.
\<close>

datatype rule = RelayEnabled | SkipOwnMessages | SkipGroupMessages | AllowedSenders | RequiredKeywords

definition shouldForward_return :: "api_config \<Rightarrow> string \<Rightarrow> string \<Rightarrow> js_object \<Rightarrow> rule option" where
  "shouldForward_return apiConfig sender message additionalData =
     (let fs = filters apiConfig in
      if \<not> enabled apiConfig then Some RelayEnabled
      else if skipOwnMessages fs \<and> truthy (get_prop additionalData ''isFromMe'') then Some SkipOwnMessages
      else if skipGroupMessages fs \<and> get_prop additionalData ''chatType'' = Some (JStr ''group'')
        then Some SkipGroupMessages
      else if length (allowedSenders fs) > 0 \<and> sender \<notin> set (allowedSenders fs) then Some AllowedSenders
      else if length (requiredKeywords fs) > 0 then
        (let hasKeyword =
               list_ex (\<lambda>keyword. str_includes (toLowerCase message) (toLowerCase keyword))
                 (requiredKeywords fs)
         in if \<not> hasKeyword then Some RequiredKeywords else None)
      else None)"

subsection \<open>The decision order as the specification words it\<close>










section \<open>Delivery pipeline\<close>

subsection \<open>The world outside: HTTP responses, the clock, the console\<close>

text \<open>
  \<^verbatim>\<open>await fetch(...)\<close> either rejects with an error or resolves to a response.
  A response has a status; \<^verbatim>\<open>response.ok\<close> is node-fetch's test
  \<^verbatim>\<open>status >= 200 && status < 300\<close>; \<^verbatim>\<open>await response.text()\<close> reads the body and
  can itself reject (\<open>Inl\<close>).
\<close>

record js_error =
  err_name :: string
  err_message :: string
  err_stack :: string

record response =
  status :: nat
  statusText :: string
  resp_headers :: "(string \<times> string) list"
  body_text :: "js_error + string"

definition ok :: "response \<Rightarrow> bool" where
  "ok r = (200 \<le> status r \<and> status r < 300)"

datatype fetch_result = Rejected js_error | Resolved response

text \<open>
  The \<open>i\<close>-th call of \<^verbatim>\<open>fetch\<close> made for an event gets \<open>fetch_results w i\<close>, and the
  \<open>i\<close>-th \<^verbatim>\<open>new Date().toISOString()\<close> gives \<open>clock w i\<close>. Every attempt makes exactly one
  call of each, so both are indexed by the attempt number.
\<close>

record world =
  fetch_results :: "nat \<Rightarrow> fetch_result"
  clock :: "nat \<Rightarrow> string"

record fetch_request =
  url :: string
  http_method :: string
  req_headers :: "(string \<times> string) list"
  req_body :: js_object
  req_timeout :: nat

text \<open>
  What a run does, in order: an HTTP call, a \<^verbatim>\<open>setTimeout\<close> wait of so many
  milliseconds, or a console line (its stream, its text without the pictograph, and
  the values interpolated into it).
\<close>

datatype stream = Log | Error

datatype effect =
    Fetch fetch_request
  | Sleep nat
  | Console stream string "json list"

definition jnat :: "nat \<Rightarrow> json" where
  "jnat n = JNum (Finite (of_nat n))"

definition jheaders :: "(string \<times> string) list \<Rightarrow> json" where
  "jheaders hs = JObj (map (\<lambda>kv. (fst kv, JStr (snd kv))) hs)"

definition prepend :: "effect list \<Rightarrow> bool \<times> effect list \<Rightarrow> bool \<times> effect list" where
  "prepend es r = (fst r, es @ snd r)"

subsection \<open>The request\<close>

text \<open>
  \<^verbatim>\<open>{ sender: sender, message: message, timestamp: new Date().toISOString(),
     ...additionalData }\<close>
\<close>

definition build_payload :: "string \<Rightarrow> string \<Rightarrow> string \<Rightarrow> js_object \<Rightarrow> js_object" where
  "build_payload sender message stamp additionalData =
     spread [(''sender'', JStr sender), (''message'', JStr message), (''timestamp'', JStr stamp)]
       additionalData"

definition api_request :: "api_config \<Rightarrow> js_object \<Rightarrow> fetch_request" where
  "api_request apiConfig payload =
     \<lparr>url = endpoint apiConfig,
      http_method = ''POST'',
      req_headers = AList.update ''Authorization'' (''Bearer '' @ apiKey apiConfig) (headers apiConfig),
      req_body = payload,
      req_timeout = timeout apiConfig\<rparr>"

subsection \<open>The bot's \<^verbatim>\<open>forwardMessageToAPI\<close>\<close>

definition masked_key :: "string \<Rightarrow> string" where
  "masked_key k = (if k = [] then ''None'' else ''***'' @ drop (length k - 4) k)"

definition debug_request :: "api_config \<Rightarrow> js_object \<Rightarrow> nat \<Rightarrow> effect list" where
  "debug_request apiConfig payload attempt =
     (if debug apiConfig then
        [Console Log ''DEBUG: Forwarding message to API'' [],
         Console Log ''Payload:'' [JObj payload],
         Console Log ''Endpoint:'' [JStr (endpoint apiConfig)],
         Console Log ''API Key:'' [JStr (masked_key (apiKey apiConfig))],
         Console Log ''Timeout:'' [jnat (timeout apiConfig)],
         Console Log ''Attempt:'' [jnat attempt, jnat (retryAttempts apiConfig)]]
      else [])"

definition wait_before_retry :: "api_config \<Rightarrow> effect list" where
  "wait_before_retry apiConfig =
     (if debug apiConfig then [Console Log ''DEBUG: Waiting before retry...'' [jnat (retryDelay apiConfig)]]
      else []) @
     [Sleep (retryDelay apiConfig)]"

text \<open>The console lines of the \<^verbatim>\<open>catch\<close> block.\<close>

definition log_error :: "api_config \<Rightarrow> nat \<Rightarrow> js_error \<Rightarrow> effect list" where
  "log_error apiConfig attempt error =
     (if debug apiConfig then
        [Console Log ''DEBUG: Network/connection error'' [],
         Console Log ''Error Type:'' [JStr (err_name error)],
         Console Log ''Error Message:'' [JStr (err_message error)],
         Console Log ''Error Stack:'' [JStr (err_stack error)]]
      else if logErrors apiConfig then
        [Console Error ''Error forwarding message to API''
           [jnat attempt, jnat (retryAttempts apiConfig), JStr (err_message error)]]
      else [])"

text \<open>
  The \<^verbatim>\<open>catch (error)\<close> block: it logs, returns false on the last attempt, and
  otherwise waits and lets the loop go on (\<open>next_iteration\<close>).
\<close>

definition catch_block ::
  "api_config \<Rightarrow> nat \<Rightarrow> js_error \<Rightarrow> bool \<times> effect list \<Rightarrow> bool \<times> effect list" where
  "catch_block apiConfig attempt error next_iteration =
     prepend (log_error apiConfig attempt error)
       (if attempt = retryAttempts apiConfig then (False, [])
        else prepend (wait_before_retry apiConfig) next_iteration)"

text \<open>The console lines of the two branches of \<^verbatim>\<open>if (response.ok)\<close>.\<close>

definition log_ok :: "api_config \<Rightarrow> response \<Rightarrow> effect list" where
  "log_ok apiConfig response =
     (if debug apiConfig then
        [Console Log ''DEBUG: API request successful'' [],
         Console Log ''Status:'' [jnat (status response), JStr (statusText response)],
         Console Log ''Headers:'' [jheaders (resp_headers response)]]
      else if logSuccess apiConfig then
        [Console Log ''Message forwarded to API successfully. Status:'' [jnat (status response)]]
      else [])"

definition log_not_ok :: "api_config \<Rightarrow> response \<Rightarrow> string \<Rightarrow> effect list" where
  "log_not_ok apiConfig response responseText =
     (if debug apiConfig then
        [Console Log ''DEBUG: API request failed'' [],
         Console Log ''Status:'' [jnat (status response), JStr (statusText response)],
         Console Log ''Response Headers:'' [jheaders (resp_headers response)],
         Console Log ''Response Body:'' [JStr responseText]]
      else if logErrors apiConfig then
        [Console Error ''API request failed. Status, Response:''
           [jnat (status response), JStr responseText]]
      else [])"

text \<open>
  The body of \<^verbatim>\<open>for (let attempt = 1; attempt <= retryAttempts; attempt++)\<close> and the
  \<^verbatim>\<open>return false\<close> after the loop. The result is the returned boolean and the effects.
\<close>

function forward_loop ::
  "api_config \<Rightarrow> world \<Rightarrow> string \<Rightarrow> string \<Rightarrow> js_object \<Rightarrow> nat \<Rightarrow> bool \<times> effect list" where
  "forward_loop apiConfig w sender message additionalData attempt =
     (if attempt \<le> retryAttempts apiConfig then
        (let payload = build_payload sender message (clock w attempt) additionalData in
         prepend (debug_request apiConfig payload attempt @ [Fetch (api_request apiConfig payload)])
           (case fetch_results w attempt of
              Rejected error \<Rightarrow>
                catch_block apiConfig attempt error
                  (forward_loop apiConfig w sender message additionalData (Suc attempt))
            | Resolved response \<Rightarrow>
                if ok response then (True, log_ok apiConfig response)
                else
                  (case body_text response of
                     Inl error \<Rightarrow>
                       catch_block apiConfig attempt error
                         (forward_loop apiConfig w sender message additionalData (Suc attempt))
                   | Inr responseText \<Rightarrow>
                       prepend (log_not_ok apiConfig response responseText)
                         (if attempt = retryAttempts apiConfig then (False, [])
                          else prepend (wait_before_retry apiConfig)
                                 (forward_loop apiConfig w sender message additionalData (Suc attempt))))))
      else (False, []))"
  by pat_completeness auto
termination
  by (relation "measure (\<lambda>(apiConfig, w, sender, message, additionalData, attempt).
        Suc (retryAttempts apiConfig) - attempt)") auto

definition forwardMessageToAPI ::
  "api_config \<Rightarrow> world \<Rightarrow> string \<Rightarrow> string \<Rightarrow> js_object \<Rightarrow> bool \<times> effect list" where
  "forwardMessageToAPI apiConfig w sender message additionalData =
     forward_loop apiConfig w sender message additionalData 1"

subsection \<open>The copy in \<^verbatim>\<open>example.js\<close>\<close>

text \<open>
  The example program logs its debug lines unconditionally and reads the response body
  before it looks at \<^verbatim>\<open>response.ok\<close>; a body that cannot be read throws into the
  \<^verbatim>\<open>catch\<close> block whatever the status was.
\<close>

definition example_log_request :: "api_config \<Rightarrow> js_object \<Rightarrow> nat \<Rightarrow> effect list" where
  "example_log_request apiConfig payload attempt =
     [Console Log ''DEBUG: Attempting API call'' [jnat attempt, jnat (retryAttempts apiConfig)],
      Console Log ''DEBUG: Endpoint:'' [JStr (endpoint apiConfig)],
      Console Log ''DEBUG: Payload:'' [JObj payload],
      Console Log ''DEBUG: Headers:'' [jheaders (req_headers (api_request apiConfig payload))]]"

definition example_log_response :: "response \<Rightarrow> effect list" where
  "example_log_response response =
     [Console Log ''DEBUG: Response status:'' [jnat (status response)],
      Console Log ''DEBUG: Response headers:'' [jheaders (resp_headers response)]]"

definition example_log_ok :: "api_config \<Rightarrow> response \<Rightarrow> effect list" where
  "example_log_ok apiConfig response =
     (if logSuccess apiConfig then
        [Console Log ''Message forwarded to API successfully. Status:'' [jnat (status response)]]
      else [])"

definition example_log_not_ok :: "api_config \<Rightarrow> response \<Rightarrow> string \<Rightarrow> effect list" where
  "example_log_not_ok apiConfig response responseText =
     (if logErrors apiConfig then
        [Console Error ''API request failed. Status, Response:''
           [jnat (status response), JStr responseText]]
      else [])"

definition example_log_error :: "api_config \<Rightarrow> nat \<Rightarrow> js_error \<Rightarrow> effect list" where
  "example_log_error apiConfig attempt error =
     (if logErrors apiConfig then
        [Console Error ''Error forwarding message to API''
           [jnat attempt, jnat (retryAttempts apiConfig), JStr (err_message error)],
         Console Error ''DEBUG: Full error:''
           [JStr (err_name error), JStr (err_message error), JStr (err_stack error)]]
      else [])"

definition example_catch_block ::
  "api_config \<Rightarrow> nat \<Rightarrow> js_error \<Rightarrow> bool \<times> effect list \<Rightarrow> bool \<times> effect list" where
  "example_catch_block apiConfig attempt error next_iteration =
     prepend (example_log_error apiConfig attempt error)
       (if attempt = retryAttempts apiConfig then (False, [])
        else prepend [Sleep (retryDelay apiConfig)] next_iteration)"

function example_forward_loop ::
  "api_config \<Rightarrow> world \<Rightarrow> string \<Rightarrow> string \<Rightarrow> js_object \<Rightarrow> nat \<Rightarrow> bool \<times> effect list" where
  "example_forward_loop apiConfig w sender message additionalData attempt =
     (if attempt \<le> retryAttempts apiConfig then
        (let payload = build_payload sender message (clock w attempt) additionalData in
         prepend (example_log_request apiConfig payload attempt @ [Fetch (api_request apiConfig payload)])
           (case fetch_results w attempt of
              Rejected error \<Rightarrow>
                example_catch_block apiConfig attempt error
                  (example_forward_loop apiConfig w sender message additionalData (Suc attempt))
            | Resolved response \<Rightarrow>
                prepend (example_log_response response)
                  (case body_text response of
                     Inl error \<Rightarrow>
                       example_catch_block apiConfig attempt error
                         (example_forward_loop apiConfig w sender message additionalData (Suc attempt))
                   | Inr responseText \<Rightarrow>
                       prepend [Console Log ''DEBUG: Response body:'' [JStr responseText]]
                         (if ok response then (True, example_log_ok apiConfig response)
                          else
                            prepend (example_log_not_ok apiConfig response responseText)
                              (if attempt = retryAttempts apiConfig then (False, [])
                               else prepend [Sleep (retryDelay apiConfig)]
                                      (example_forward_loop apiConfig w sender message additionalData
                                         (Suc attempt)))))))
      else (False, []))"
  by pat_completeness auto
termination
  by (relation "measure (\<lambda>(apiConfig, w, sender, message, additionalData, attempt).
        Suc (retryAttempts apiConfig) - attempt)") auto

definition example_forwardMessageToAPI ::
  "api_config \<Rightarrow> world \<Rightarrow> string \<Rightarrow> string \<Rightarrow> js_object \<Rightarrow> bool \<times> effect list" where
  "example_forwardMessageToAPI apiConfig w sender message additionalData =
     example_forward_loop apiConfig w sender message additionalData 1"

subsection \<open>Observing a run\<close>

text \<open>
  The network and timer events of a run, console lines dropped: \<open>None\<close> for an HTTP
  attempt, \<open>Some d\<close> for a wait of \<open>d\<close> milliseconds.
\<close>

fun schedule :: "effect list \<Rightarrow> nat option list" where
  "schedule [] = []"
| "schedule (Fetch _ # es) = None # schedule es"
| "schedule (Sleep d # es) = Some d # schedule es"
| "schedule (Console _ _ _ # es) = schedule es"

definition attempts :: "effect list \<Rightarrow> nat" where
  "attempts es = length (filter (\<lambda>x. x = None) (schedule es))"

definition delays :: "effect list \<Rightarrow> nat list" where
  "delays es = concat (map (\<lambda>x. case x of None \<Rightarrow> [] | Some d \<Rightarrow> [d]) (schedule es))"

fun requests :: "effect list \<Rightarrow> fetch_request list" where
  "requests [] = []"
| "requests (Fetch r # es) = r # requests es"
| "requests (Sleep _ # es) = requests es"
| "requests (Console _ _ _ # es) = requests es"

text \<open>The returned boolean, the number of HTTP attempts and the waits of a run.\<close>

definition run_summary :: "bool \<times> effect list \<Rightarrow> bool \<times> nat \<times> nat list" where
  "run_summary r = (fst r, attempts (snd r), delays (snd r))"

text \<open>
  What an observer of the network and the timer sees of a run: the returned boolean,
  the schedule, and the requests sent.
\<close>

definition observable :: "bool \<times> effect list \<Rightarrow> bool \<times> nat option list \<times> fetch_request list" where
  "observable r = (fst r, schedule (snd r), requests (snd r))"

text \<open>The request of attempt \<open>a\<close>.\<close>

definition request_at ::
  "api_config \<Rightarrow> world \<Rightarrow> string \<Rightarrow> string \<Rightarrow> js_object \<Rightarrow> nat \<Rightarrow> fetch_request" where
  "request_at c w s m ad a = api_request c (build_payload s m (clock w a) ad)"

text \<open>
  \<open>n\<close> attempts with a wait of \<open>d\<close> between consecutive ones: attempt, wait, attempt,
  ..., attempt.
\<close>

fun retry_schedule :: "nat \<Rightarrow> nat \<Rightarrow> nat option list" where
  "retry_schedule 0 d = []"
| "retry_schedule (Suc 0) d = [None]"
| "retry_schedule (Suc (Suc n)) d = None # Some d # retry_schedule (Suc n) d"

text \<open>
  An attempt fails when the call rejects (a transport-level error) or the response's
  status is not a success status.
\<close>

fun attempt_fails :: "fetch_result \<Rightarrow> bool" where
  "attempt_fails (Rejected _) = True"
| "attempt_fails (Resolved r) = (\<not> ok r)"

fun fails_upto :: "world \<Rightarrow> nat \<Rightarrow> bool" where
  "fails_upto w 0 = True"
| "fails_upto w (Suc n) = (fails_upto w n \<and> attempt_fails (fetch_results w (Suc n)))"

fun succeeds_at :: "world \<Rightarrow> nat \<Rightarrow> bool" where
  "succeeds_at w k = (case fetch_results w k of Rejected _ \<Rightarrow> False | Resolved r \<Rightarrow> ok r)"

fun body_readable_at :: "world \<Rightarrow> nat \<Rightarrow> bool" where
  "body_readable_at w k =
     (case fetch_results w k of Rejected _ \<Rightarrow> False | Resolved r \<Rightarrow> (case body_text r of Inl _ \<Rightarrow> False | Inr _ \<Rightarrow> True))"

subsection \<open>What the message handler passes\<close>

text \<open>
  The \<^verbatim>\<open>message\<close> event handler takes \<^verbatim>\<open>msg.from\<close> and \<^verbatim>\<open>msg.body\<close>, builds
  \<^verbatim>\<open>additionalData\<close> from the message and its chat, asks the filter, and calls
  \<^verbatim>\<open>forwardMessageToAPI(sender, message, additionalData)\<close>. It is the only caller.
  The handler's own console lines are left out; \<open>None\<close> is a message filtered out.
\<close>

record msg =
  msg_from :: string
  msg_body :: string
  msg_id_serialized :: string
  msg_type :: string
  msg_hasMedia :: bool
  msg_timestamp :: nat
  msg_fromMe :: bool

record chat =
  isGroup :: bool
  chat_name :: "string option"

definition additionalData_of :: "msg \<Rightarrow> chat \<Rightarrow> js_object" where
  "additionalData_of m c =
     [(''messageId'', JStr (msg_id_serialized m)),
      (''chatType'', JStr (if isGroup c then ''group'' else ''private'')),
      (''chatName'', JStr (case chat_name c of None \<Rightarrow> ''Unknown''
                           | Some n \<Rightarrow> if n = [] then ''Unknown'' else n)),
      (''messageType'', JStr (msg_type m)),
      (''hasMedia'', JBool (msg_hasMedia m)),
      (''timestamp'', jnat (msg_timestamp m)),
      (''isFromMe'', JBool (msg_fromMe m))]"

definition forward_event :: "api_config \<Rightarrow> world \<Rightarrow> msg \<Rightarrow> chat \<Rightarrow> (bool \<times> effect list) option" where
  "forward_event apiConfig w m c =
     (let sender = msg_from m; message = msg_body m; additionalData = additionalData_of m c in
      if shouldForwardMessage apiConfig sender message additionalData
      then Some (forwardMessageToAPI apiConfig w sender message additionalData)
      else None)"

section \<open>Control-plane gateway\<close>

subsection \<open>Requests, responses and the collaborators\<close>

text \<open>
  A request as Node hands it to the handler: the method, the \<^verbatim>\<open>authorization\<close> header
  (\<open>None\<close> when absent), the path name \<^verbatim>\<open>url.parse(req.url, true).pathname\<close>, and the
  chunks of the body in arrival order.
\<close>

record request =
  req_method :: string
  authorization :: "string option"
  pathname :: string
  chunks :: "string list"

record http_response =
  code :: nat
  res_headers :: "(string \<times> string) list"
  res_body :: "json option"

text \<open>
  What \<^verbatim>\<open>client.sendMessage\<close> is given: the chat id and either the message value
  or a \<^verbatim>\<open>new Location(latitude, longitude, name, address)\<close>.
\<close>

datatype content =
    TextContent "json option"
  | LocationContent "json option" "json option" "json option" "json option"

record sent_message =
  id_serialized :: string
  sent_timestamp :: nat

text \<open>
  The gateway's surroundings: the token, the runtime's \<^verbatim>\<open>JSON.parse\<close> (\<open>Inl\<close> is the
  SyntaxError it throws) and array-to-string conversion, the session's send capability
  (\<open>Inl\<close> is the error it rejects with), whether \<^verbatim>\<open>client.info\<close> is set, and
  \<^verbatim>\<open>new Date().toISOString()\<close>.
\<close>

record gateway =
  HTTP_AUTH_TOKEN :: string
  JSON_parse :: "string \<Rightarrow> js_error + json"
  array_toString :: "json list \<Rightarrow> string"
  sendMessage :: "json option \<Rightarrow> content \<Rightarrow> js_error + sent_message"
  client_info :: bool
  date_now :: string

text \<open>
  What handling one request does: the response written, the calls of
  \<^verbatim>\<open>client.sendMessage\<close> made, and the errors given to \<^verbatim>\<open>console.error\<close>.
\<close>

record outcome =
  response :: http_response
  sent :: "(json option \<times> content) list"
  logged :: "js_error list"

definition cors_headers :: "(string \<times> string) list" where
  "cors_headers =
     [(''Access-Control-Allow-Origin'', ''*''),
      (''Access-Control-Allow-Methods'', ''GET, POST, OPTIONS''),
      (''Access-Control-Allow-Headers'', ''Content-Type, Authorization'')]"

text \<open>
  \<^verbatim>\<open>res.writeHead(code, { 'Content-Type': 'application/json' });
  res.end(JSON.stringify(obj))\<close>
\<close>

definition json_response :: "nat \<Rightarrow> js_object \<Rightarrow> http_response" where
  "json_response c obj =
     \<lparr>code = c,
      res_headers = cors_headers @ [(''Content-Type'', ''application/json'')],
      res_body = Some (JObj obj)\<rparr>"

definition respond :: "http_response \<Rightarrow> outcome" where
  "respond r = \<lparr>response = r, sent = [], logged = []\<rparr>"

subsection \<open>\<^verbatim>\<open>POST /send\<close>\<close>

text \<open>
  Reading one of the properties \<^verbatim>\<open>to\<close>, \<^verbatim>\<open>message\<close>, \<^verbatim>\<open>type\<close>, \<^verbatim>\<open>latitude\<close>,
  \<^verbatim>\<open>longitude\<close>, \<^verbatim>\<open>name\<close>, \<^verbatim>\<open>address\<close> of the parsed body: an object has it when
  the key is there; a number, a string, a boolean and an array have none of them.
\<close>

definition field_of :: "json \<Rightarrow> string \<Rightarrow> json option" where
  "field_of data k = (case data of JObj kvs \<Rightarrow> map_of kvs k | _ \<Rightarrow> None)"

text \<open>
  The errors the runtime throws inside the handler. The wording is V8's, without its
  quotation marks; nothing depends on it.
\<close>

definition type_error :: "string \<Rightarrow> js_error" where
  "type_error msg = \<lparr>err_name = ''TypeError'', err_message = msg, err_stack = []\<rparr>"

definition cannot_destructure :: js_error where
  "cannot_destructure = type_error ''Cannot destructure property to of data as it is null.''"

definition not_a_function :: js_error where
  "not_a_function = type_error ''phoneNumber.includes is not a function''"

definition cannot_read_includes :: js_error where
  "cannot_read_includes = type_error ''Cannot read properties of undefined or null (reading includes)''"

text \<open>The values that have an \<^verbatim>\<open>includes\<close> method: strings and arrays.\<close>

fun has_includes :: "json option \<Rightarrow> bool" where
  "has_includes (Some (JStr _)) = True"
| "has_includes (Some (JArr _)) = True"
| "has_includes _ = False"

text \<open>
  \<^verbatim>\<open>let phoneNumber = to;
  if (!phoneNumber.includes('@c.us') && !phoneNumber.includes('@g.us')) {
      phoneNumber = `${phoneNumber}@c.us`;
  }\<close>
  A string has the substring test, an array the element test; on any other value
  \<^verbatim>\<open>includes\<close> is not a function and the call throws.
\<close>

definition format_phone_number :: "gateway \<Rightarrow> json option \<Rightarrow> js_error + json option" where
  "format_phone_number g to =
     (case to of
        Some (JStr s) \<Rightarrow>
          Inr (Some (JStr (if \<not> str_includes s ''@c.us'' \<and> \<not> str_includes s ''@g.us''
                          then s @ ''@c.us'' else s)))
      | Some (JArr xs) \<Rightarrow>
          Inr (Some (if JStr ''@c.us'' \<notin> set xs \<and> JStr ''@g.us'' \<notin> set xs
                     then JStr (array_toString g xs @ ''@c.us'') else JArr xs))
      | None \<Rightarrow> Inl cannot_read_includes
      | Some JNull \<Rightarrow> Inl cannot_read_includes
      | Some _ \<Rightarrow> Inl not_a_function)"

text \<open>The \<^verbatim>\<open>catch (error)\<close> block of the body callback.\<close>

definition send_failed :: "js_error \<Rightarrow> (json option \<times> content) list \<Rightarrow> outcome" where
  "send_failed error calls =
     \<lparr>response = json_response 500
        [(''error'', JStr ''Failed to send message''), (''details'', JStr (err_message error))],
      sent = calls,
      logged = [error]\<rparr>"

text \<open>After the \<^verbatim>\<open>switch\<close>: the call has been made; its result is awaited and reported.\<close>

definition send_and_report :: "gateway \<Rightarrow> json option \<Rightarrow> content \<Rightarrow> outcome" where
  "send_and_report g phoneNumber c =
     (case sendMessage g phoneNumber c of
        Inl error \<Rightarrow> send_failed error [(phoneNumber, c)]
      | Inr result \<Rightarrow>
          \<lparr>response = json_response 200
             [(''success'', JBool True),
              (''messageId'', JStr (id_serialized result)),
              (''timestamp'', jnat (sent_timestamp result))],
           sent = [(phoneNumber, c)],
           logged = []\<rparr>)"

text \<open>The \<^verbatim>\<open>end\<close> callback of \<^verbatim>\<open>POST /send\<close>, given the whole body.\<close>

definition post_send :: "gateway \<Rightarrow> string \<Rightarrow> outcome" where
  "post_send g body =
     (case JSON_parse g body of
        Inl error \<Rightarrow> send_failed error []
      | Inr data \<Rightarrow>
          if data = JNull then send_failed cannot_destructure []
          else
            (let to = field_of data ''to'';
                 message = field_of data ''message'';
                 type = (case field_of data ''type'' of None \<Rightarrow> JStr ''text'' | Some t \<Rightarrow> t)
             in
             if \<not> truthy to \<or> \<not> truthy message then
               respond (json_response 400 [(''error'', JStr ''Missing required fields: to, message'')])
             else
               (case format_phone_number g to of
                  Inl error \<Rightarrow> send_failed error []
                | Inr phoneNumber \<Rightarrow>
                    if type = JStr ''text'' then
                      send_and_report g phoneNumber (TextContent message)
                    else if type = JStr ''location'' then
                      (let latitude = field_of data ''latitude'';
                           longitude = field_of data ''longitude'';
                           name = field_of data ''name'';
                           address = field_of data ''address''
                       in
                       if \<not> truthy latitude \<or> \<not> truthy longitude then
                         respond (json_response 400
                           [(''error'', JStr ''Location requires latitude and longitude'')])
                       else
                         send_and_report g phoneNumber
                           (LocationContent latitude longitude name address))
                    else
                      respond (json_response 400 [(''error'', JStr ''Unsupported message type'')]))))"

subsection \<open>The request handler\<close>

definition unauthorized :: outcome where
  "unauthorized = respond (json_response 401 [(''error'', JStr ''Unauthorized'')])"

definition handle_request :: "gateway \<Rightarrow> request \<Rightarrow> outcome" where
  "handle_request g req =
     (if req_method req = ''OPTIONS'' then
        respond \<lparr>code = 200, res_headers = cors_headers, res_body = None\<rparr>
      else
        (let authHeader = authorization req in
         if (case authHeader of None \<Rightarrow> True | Some h \<Rightarrow> h = [])
            \<or> authHeader \<noteq> Some (''Bearer '' @ HTTP_AUTH_TOKEN g) then
           unauthorized
         else
           (let path = pathname req in
            if req_method req = ''POST'' \<and> path = ''/send'' then
              post_send g (concat (chunks req))
            else if req_method req = ''GET'' \<and> path = ''/status'' then
              respond (json_response 200
                [(''status'', JStr ''running''),
                 (''whatsapp'', JStr (if client_info g then ''connected'' else ''connecting'')),
                 (''timestamp'', JStr (date_now g))])
            else
              respond (json_response 404 [(''error'', JStr ''Not found'')]))))"

text \<open>An authenticated \<^verbatim>\<open>POST /send\<close>.\<close>

definition authorized_send :: "gateway \<Rightarrow> request \<Rightarrow> bool" where
  "authorized_send g req =
     (req_method req = ''POST'' \<and> pathname req = ''/send'' \<and>
      authorization req = Some (''Bearer '' @ HTTP_AUTH_TOKEN g))"

section \<open>Example inputs\<close>

text \<open>Concrete configurations, worlds and requests, used to instantiate the theorems.\<close>

definition ex_config :: api_config where
  "ex_config =
     \<lparr>enabled = True, endpoint = ''https://api.example.com/hook'', apiKey = ''secret-key-1234'',
      headers = [(''Content-Type'', ''application/json'')], timeout = 10000,
      retryAttempts = 3, retryDelay = 1000,
      filters = \<lparr>skipOwnMessages = True, skipGroupMessages = False, allowedSenders = [],
                 requiredKeywords = []\<rparr>,
      logSuccess = True, logErrors = True, debug = False\<rparr>"

definition ex_error :: js_error where
  "ex_error = \<lparr>err_name = ''FetchError'', err_message = ''connect ECONNREFUSED'', err_stack = []\<rparr>"

definition ex_response :: "nat \<Rightarrow> response" where
  "ex_response st = \<lparr>status = st, statusText = [], resp_headers = [], body_text = Inr ''{}''\<rparr>"

definition ex_clock :: "nat \<Rightarrow> string" where
  "ex_clock i = ''2024-05-01T12:00:00.000Z''"

text \<open>An endpoint that is down: 503, then a refused connection, then 503 for ever.\<close>

definition world_down :: world where
  "world_down =
     \<lparr>fetch_results = (\<lambda>i. if i = 2 then Rejected ex_error else Resolved (ex_response 503)),
      clock = ex_clock\<rparr>"

text \<open>An endpoint that answers 500, then refuses, then accepts with 200.\<close>

definition world_third :: world where
  "world_third =
     \<lparr>fetch_results = (\<lambda>i. if i = 1 then Resolved (ex_response 500)
                           else if i = 2 then Rejected ex_error
                           else Resolved (ex_response 200)),
      clock = ex_clock\<rparr>"

text \<open>An endpoint that answers 500 and then accepts with 200.\<close>

definition world_second :: world where
  "world_second =
     \<lparr>fetch_results = (\<lambda>i. if i = 1 then Resolved (ex_response 500) else Resolved (ex_response 200)),
      clock = ex_clock\<rparr>"

text \<open>An endpoint that accepts with 200 but whose response body cannot be read.\<close>

definition world_unreadable :: world where
  "world_unreadable =
     \<lparr>fetch_results = (\<lambda>i. Resolved ((ex_response 200)\<lparr>body_text := Inl ex_error\<rparr>)),
      clock = ex_clock\<rparr>"

definition ex_msg :: msg where
  "ex_msg =
     \<lparr>msg_from = ''15551234567@c.us'', msg_body = ''hello'', msg_id_serialized = ''false_15551234567@c.us_3EB0'',
      msg_type = ''chat'', msg_hasMedia = False, msg_timestamp = 1694456538, msg_fromMe = False\<rparr>"

definition ex_chat :: chat where
  "ex_chat = \<lparr>isGroup = False, chat_name = Some ''Alice''\<rparr>"


subsection \<open>Example gateway requests\<close>

definition ex_body_text :: string where
  \<open>ex_body_text = ''{"to":"15551234567","message":"hi"}''\<close>

definition ex_body_group :: string where
  \<open>ex_body_group = ''{"to":"abc@g.us","message":"hi"}''\<close>

definition ex_body_embedded :: string where
  \<open>ex_body_embedded = ''{"to":"15551234567@c.us.example.org","message":"hi"}''\<close>

definition ex_body_empty_to :: string where
  \<open>ex_body_empty_to = ''{"to":"","message":"hi"}''\<close>

definition ex_body_location_no_latitude :: string where
  \<open>ex_body_location_no_latitude =
     ''{"to":"15551234567","message":"here","type":"location","longitude":34.78}''\<close>

definition ex_body_location_numeric_to :: string where
  \<open>ex_body_location_numeric_to =
     ''{"to":15551234567,"message":"here","type":"location","longitude":34.78}''\<close>

definition ex_body_location_zero :: string where
  \<open>ex_body_location_zero =
     ''{"to":"15551234567","message":"here","type":"location","latitude":0,"longitude":34.78}''\<close>

definition ex_body_location_zero_numeric_to :: string where
  \<open>ex_body_location_zero_numeric_to =
     ''{"to":15551234567,"message":"here","type":"location","latitude":0,"longitude":34.78}''\<close>

definition ex_body_location_no_recipient :: string where
  \<open>ex_body_location_no_recipient =
     ''{"message":"here","type":"location","longitude":34.78}''\<close>

definition ex_body_location_zero_no_message :: string where
  \<open>ex_body_location_zero_no_message =
     ''{"to":"15551234567","type":"location","latitude":0,"longitude":34.78}''\<close>

definition ex_body_malformed :: string where
  \<open>ex_body_malformed = ''{"to":"15551234567","message":''\<close>

definition ex_data_text :: json where
  "ex_data_text = JObj [(''to'', JStr ''15551234567''), (''message'', JStr ''hi'')]"

definition ex_data_group :: json where
  "ex_data_group = JObj [(''to'', JStr ''abc@g.us''), (''message'', JStr ''hi'')]"

definition ex_data_embedded :: json where
  "ex_data_embedded = JObj [(''to'', JStr ''15551234567@c.us.example.org''), (''message'', JStr ''hi'')]"

definition ex_data_empty_to :: json where
  "ex_data_empty_to = JObj [(''to'', JStr []), (''message'', JStr ''hi'')]"

definition ex_data_location_no_latitude :: json where
  "ex_data_location_no_latitude =
     JObj [(''to'', JStr ''15551234567''), (''message'', JStr ''here''), (''type'', JStr ''location''),
           (''longitude'', JNum (Finite (3478 / 100)))]"

definition ex_data_location_numeric_to :: json where
  "ex_data_location_numeric_to =
     JObj [(''to'', JNum (Finite 15551234567)), (''message'', JStr ''here''),
           (''type'', JStr ''location''), (''longitude'', JNum (Finite (3478 / 100)))]"

definition ex_data_location_zero :: json where
  "ex_data_location_zero =
     JObj [(''to'', JStr ''15551234567''), (''message'', JStr ''here''), (''type'', JStr ''location''),
           (''latitude'', JNum (Finite 0)), (''longitude'', JNum (Finite (3478 / 100)))]"

definition ex_data_location_zero_numeric_to :: json where
  "ex_data_location_zero_numeric_to =
     JObj [(''to'', JNum (Finite 15551234567)), (''message'', JStr ''here''),
           (''type'', JStr ''location''), (''latitude'', JNum (Finite 0)),
           (''longitude'', JNum (Finite (3478 / 100)))]"

definition ex_data_location_no_recipient :: json where
  "ex_data_location_no_recipient =
     JObj [(''message'', JStr ''here''), (''type'', JStr ''location''),
           (''longitude'', JNum (Finite (3478 / 100)))]"

definition ex_data_location_zero_no_message :: json where
  "ex_data_location_zero_no_message =
     JObj [(''to'', JStr ''15551234567''), (''type'', JStr ''location''),
           (''latitude'', JNum (Finite 0)), (''longitude'', JNum (Finite (3478 / 100)))]"

definition ex_syntax_error :: js_error where
  "ex_syntax_error =
     \<lparr>err_name = ''SyntaxError'', err_message = ''Unexpected end of JSON input'', err_stack = []\<rparr>"

text \<open>
  A stand-in for \<^verbatim>\<open>JSON.parse\<close> that knows the example bodies and rejects every other
  text.
\<close>

definition ex_parse :: "string \<Rightarrow> js_error + json" where
  "ex_parse body =
     (if body = ex_body_text then Inr ex_data_text
      else if body = ex_body_group then Inr ex_data_group
      else if body = ex_body_embedded then Inr ex_data_embedded
      else if body = ex_body_empty_to then Inr ex_data_empty_to
      else if body = ex_body_location_no_latitude then Inr ex_data_location_no_latitude
      else if body = ex_body_location_numeric_to then Inr ex_data_location_numeric_to
      else if body = ex_body_location_zero then Inr ex_data_location_zero
      else if body = ex_body_location_zero_numeric_to then Inr ex_data_location_zero_numeric_to
      else if body = ex_body_location_no_recipient then Inr ex_data_location_no_recipient
      else if body = ex_body_location_zero_no_message then Inr ex_data_location_zero_no_message
      else Inl ex_syntax_error)"

definition ex_receipt :: sent_message where
  "ex_receipt = \<lparr>id_serialized = ''true_15551234567@c.us_3EB0A1'', sent_timestamp = 1714564800\<rparr>"

definition ex_gateway :: gateway where
  "ex_gateway =
     \<lparr>HTTP_AUTH_TOKEN = ''your-secret-token-here'',
      JSON_parse = ex_parse,
      array_toString = (\<lambda>xs. []),
      sendMessage = (\<lambda>phoneNumber c. Inr ex_receipt),
      client_info = True,
      date_now = ''2024-05-01T12:00:00.000Z''\<rparr>"

definition ex_request :: "string \<Rightarrow> request" where
  "ex_request body =
     \<lparr>req_method = ''POST'', authorization = Some ''Bearer your-secret-token-here'',
      pathname = ''/send'', chunks = [body]\<rparr>"

section \<open>Properties of the filter engine\<close>

lemma str_includes_sublist: "str_includes s pat = sublist pat s"
  by (induction s) (auto simp: sublist_Cons_right)

subsection \<open>Lowercasing and letters\<close>











subsection \<open>The decision\<close>


text \<open>
  Instances: a keyword matches whatever the case of its letters and of the body's, also
  for a letter of Latin-1 (the keyword is the capital E with acute, code point 201, the
  body ends in the small one, code point 233); a sender that differs from an allowed one
  in the case of a letter is not allowed; and when two rules fail, the earlier one is the
  exit.
\<close>

lemma toLowerCase_examples:
  "toLowerCase ''please HELP me'' = ''please help me''"
  "toLowerCase ''Help'' = ''help''" "toLowerCase ''Order'' = ''order''"
  "toLowerCase [CHR 0xC9] = [CHR 0xE9]"
  "toLowerCase [CHR ''c'', CHR ''a'', CHR ''f'', CHR 0xE9] =
     [CHR ''c'', CHR ''a'', CHR ''f'', CHR 0xE9]"
  by (simp_all add: toLowerCase_def lower_char_def is_capital_def char_of_def bit_0 bit_Suc)

lemma filter_examples:
  "shouldForwardMessage
     (ex_config\<lparr>filters := (filters ex_config)\<lparr>requiredKeywords := [''Order'', ''Help'']\<rparr>\<rparr>)
     ''15551234567@c.us'' ''please HELP me'' [(''isFromMe'', JBool False), (''chatType'', JStr ''private'')]"
  "shouldForwardMessage
     (ex_config\<lparr>filters := (filters ex_config)\<lparr>requiredKeywords := [[CHR 0xC9]]\<rparr>\<rparr>)
     ''15551234567@c.us'' [CHR ''c'', CHR ''a'', CHR ''f'', CHR 0xE9]
     [(''isFromMe'', JBool False), (''chatType'', JStr ''private'')]"
  "\<not> shouldForwardMessage
     (ex_config\<lparr>filters := (filters ex_config)\<lparr>allowedSenders := [''alice@c.us'']\<rparr>\<rparr>)
     ''Alice@c.us'' ''hello'' [(''isFromMe'', JBool False), (''chatType'', JStr ''private'')]"
  "shouldForward_return
     (ex_config\<lparr>filters := (filters ex_config)\<lparr>allowedSenders := [''alice@c.us''],
        requiredKeywords := [''order'']\<rparr>\<rparr>)
     ''bob@c.us'' ''hello'' [(''isFromMe'', JBool True), (''chatType'', JStr ''private'')] =
   Some SkipOwnMessages"
  by (simp_all add: shouldForwardMessage_def shouldForward_return_def ex_config_def get_prop_def
      toLowerCase_examples char_of_def bit_0 bit_Suc)

section \<open>Properties of the delivery pipeline\<close>

subsection \<open>One iteration of the retry loop\<close>

declare forward_loop.simps [simp del] example_forward_loop.simps [simp del]

lemma schedule_append [simp]: "schedule (xs @ ys) = schedule xs @ schedule ys"
  by (induction xs rule: schedule.induct) auto

lemma requests_append [simp]: "requests (xs @ ys) = requests xs @ requests ys"
  by (induction xs rule: requests.induct) auto

lemma schedule_debug_request [simp]: "schedule (debug_request c p a) = []"
  by (simp add: debug_request_def)

lemma requests_debug_request [simp]: "requests (debug_request c p a) = []"
  by (simp add: debug_request_def)

lemma schedule_wait [simp]: "schedule (wait_before_retry c) = [Some (retryDelay c)]"
  by (simp add: wait_before_retry_def)

lemma requests_wait [simp]: "requests (wait_before_retry c) = []"
  by (simp add: wait_before_retry_def)

lemma silent_logs [simp]:
  "schedule (log_error c a e) = []" "requests (log_error c a e) = []"
  "schedule (log_ok c r) = []" "requests (log_ok c r) = []"
  "schedule (log_not_ok c r t) = []" "requests (log_not_ok c r t) = []"
  by (simp_all add: log_error_def log_ok_def log_not_ok_def)

lemma example_silent_logs [simp]:
  "schedule (example_log_request c p a) = []" "requests (example_log_request c p a) = []"
  "schedule (example_log_response r) = []" "requests (example_log_response r) = []"
  "schedule (example_log_error c a e) = []" "requests (example_log_error c a e) = []"
  "schedule (example_log_ok c r) = []" "requests (example_log_ok c r) = []"
  "schedule (example_log_not_ok c r t) = []" "requests (example_log_not_ok c r t) = []"
  by (simp_all add: example_log_request_def example_log_response_def example_log_error_def
      example_log_ok_def example_log_not_ok_def)

lemma observable_prepend:
  "observable (prepend es r) =
     (fst (observable r), schedule es @ fst (snd (observable r)),
      requests es @ snd (snd (observable r)))"
  by (simp add: observable_def prepend_def)

lemma observable_catch_block:
  "observable (catch_block c a e nx) =
     (if a = retryAttempts c then (False, [], [])
      else (fst (observable nx), Some (retryDelay c) # fst (snd (observable nx)),
            snd (snd (observable nx))))"
  by (simp add: catch_block_def observable_prepend) (simp add: observable_def)

lemma observable_example_catch_block:
  "observable (example_catch_block c a e nx) =
     (if a = retryAttempts c then (False, [], [])
      else (fst (observable nx), Some (retryDelay c) # fst (snd (observable nx)),
            snd (snd (observable nx))))"
  by (simp add: example_catch_block_def observable_prepend) (simp add: observable_def)

text \<open>
  Seen from outside, an iteration sends the request of its attempt and then either
  returns true (success status), returns false (failure on the last attempt), or waits
  \<open>retryDelay\<close> and runs the next iteration. No logging flag occurs in this equation.
\<close>

lemma forward_loop_step:
  "observable (forward_loop c w s m ad a) =
     (if a \<le> retryAttempts c then
        if succeeds_at w a then (True, [None], [request_at c w s m ad a])
        else if a = retryAttempts c then (False, [None], [request_at c w s m ad a])
        else (fst (observable (forward_loop c w s m ad (Suc a))),
              None # Some (retryDelay c) # fst (snd (observable (forward_loop c w s m ad (Suc a)))),
              request_at c w s m ad a # snd (snd (observable (forward_loop c w s m ad (Suc a)))))
      else (False, [], []))"
  by (subst forward_loop.simps)
     (simp add: Let_def observable_prepend observable_catch_block request_at_def
        split: fetch_result.splits sum.splits, simp add: observable_def)

text \<open>
  The example program differs in one place: its attempt succeeds only when the status is
  a success status and the body could be read.
\<close>

lemma example_forward_loop_step:
  "observable (example_forward_loop c w s m ad a) =
     (if a \<le> retryAttempts c then
        if succeeds_at w a \<and> body_readable_at w a then (True, [None], [request_at c w s m ad a])
        else if a = retryAttempts c then (False, [None], [request_at c w s m ad a])
        else (fst (observable (example_forward_loop c w s m ad (Suc a))),
              None # Some (retryDelay c) #
                fst (snd (observable (example_forward_loop c w s m ad (Suc a)))),
              request_at c w s m ad a #
                snd (snd (observable (example_forward_loop c w s m ad (Suc a)))))
      else (False, [], []))"
  by (subst example_forward_loop.simps)
     (simp add: Let_def observable_prepend observable_example_catch_block request_at_def
        split: fetch_result.splits sum.splits, simp add: observable_def)

subsection \<open>Schedules\<close>

lemma retry_schedule_Suc:
  "0 < n \<Longrightarrow> retry_schedule (Suc n) d = None # Some d # retry_schedule n d"
  by (cases n) auto

lemma attempts_retry_schedule:
  "length (filter (\<lambda>x. x = None) (retry_schedule n d)) = n"
  by (induction n d rule: retry_schedule.induct) auto

lemma delays_retry_schedule:
  "concat (map (\<lambda>x. case x of None \<Rightarrow> [] | Some d \<Rightarrow> [d]) (retry_schedule n d)) =
     replicate (n - 1) d"
  by (induction n d rule: retry_schedule.induct) auto

lemma attempts_of_schedule:
  "schedule es = retry_schedule n d \<Longrightarrow> attempts es = n"
  by (simp add: attempts_def attempts_retry_schedule)

lemma delays_of_schedule:
  "schedule es = retry_schedule n d \<Longrightarrow> delays es = replicate (n - 1) d"
  by (simp add: delays_def delays_retry_schedule)

lemma summary_of_observable:
  assumes "observable r = (b, retry_schedule n d, rs)"
  shows "run_summary r = (b, n, replicate (n - 1) d)" and "schedule (snd r) = retry_schedule n d"
    and "requests (snd r) = rs"
proof -
  from assms show sch: "schedule (snd r) = retry_schedule n d" and "requests (snd r) = rs"
    by (simp_all add: observable_def)
  from assms have "fst r = b" by (simp add: observable_def)
  then show "run_summary r = (b, n, replicate (n - 1) d)"
    using attempts_of_schedule [OF sch] delays_of_schedule [OF sch] by (simp add: run_summary_def)
qed

lemma fails_upto_iff:
  "fails_upto w n = (\<forall>i. 1 \<le> i \<and> i \<le> n \<longrightarrow> attempt_fails (fetch_results w i))"
proof (induction n)
  case 0
  show ?case by simp
next
  case (Suc n)
  have "(\<forall>i. 1 \<le> i \<and> i \<le> Suc n \<longrightarrow> attempt_fails (fetch_results w i)) =
        ((\<forall>i. 1 \<le> i \<and> i \<le> n \<longrightarrow> attempt_fails (fetch_results w i)) \<and>
         attempt_fails (fetch_results w (Suc n)))"
    by (auto simp: le_Suc_eq)
  with Suc show ?case by simp
qed

lemma fails_not_succeeds: "attempt_fails (fetch_results w i) = (\<not> succeeds_at w i)"
  by (cases "fetch_results w i") auto

lemma no_success_upto:
  assumes "fails_upto w n" and "1 \<le> i" and "i \<le> n"
  shows "\<not> succeeds_at w i"
  using assms by (simp only: fails_upto_iff fails_not_succeeds) blast

subsection \<open>Runs that fail up to an attempt\<close>

text \<open>
  From attempt \<open>a\<close> on, with every attempt before \<open>k\<close> failing: if attempt \<open>k\<close> succeeds,
  the run returns true after \<open>k\<close>; if \<open>k\<close> is the last attempt and fails, the run returns
  false after it. In both cases the schedule is attempt, wait, ..., attempt.
\<close>

lemma forward_loop_success:
  assumes "a \<le> k" and "k \<le> retryAttempts c"
    and "\<And>i. a \<le> i \<Longrightarrow> i < k \<Longrightarrow> \<not> succeeds_at w i"
    and "succeeds_at w k"
  shows "observable (forward_loop c w s m ad a) =
           (True, retry_schedule (Suc k - a) (retryDelay c), map (request_at c w s m ad) [a..<Suc k])"
  using assms
proof (induction "k - a" arbitrary: a)
  case 0
  then have "a = k" by simp
  with 0 show ?case by (subst forward_loop_step) simp
next
  case (Suc n)
  then have lt: "a < k" and n: "n = k - Suc a" by simp_all
  have ih: "observable (forward_loop c w s m ad (Suc a)) =
      (True, retry_schedule (Suc k - Suc a) (retryDelay c), map (request_at c w s m ad) [Suc a..<Suc k])"
    using Suc.hyps(1) [OF n] lt Suc.prems by simp
  have ns: "\<not> succeeds_at w a" using Suc.prems(3) lt by simp
  have sch: "retry_schedule (Suc k - a) (retryDelay c) =
      None # Some (retryDelay c) # retry_schedule (Suc k - Suc a) (retryDelay c)"
    using lt retry_schedule_Suc [of "k - a" "retryDelay c"] by (simp add: Suc_diff_le)
  have rq: "[a..<Suc k] = a # [Suc a..<Suc k]" using lt by (simp add: upt_conv_Cons)
  show ?case using ns lt Suc.prems(2) ih sch rq
    by (subst forward_loop_step) simp
qed

lemma forward_loop_failure:
  assumes "a \<le> retryAttempts c"
    and "\<And>i. a \<le> i \<Longrightarrow> i \<le> retryAttempts c \<Longrightarrow> \<not> succeeds_at w i"
  shows "observable (forward_loop c w s m ad a) =
           (False, retry_schedule (Suc (retryAttempts c) - a) (retryDelay c),
            map (request_at c w s m ad) [a..<Suc (retryAttempts c)])"
  using assms
proof (induction "retryAttempts c - a" arbitrary: a)
  case 0
  then have "a = retryAttempts c" by simp
  with 0 show ?case by (subst forward_loop_step) simp
next
  case (Suc n)
  then have lt: "a < retryAttempts c" and n: "n = retryAttempts c - Suc a" by simp_all
  have ih: "observable (forward_loop c w s m ad (Suc a)) =
      (False, retry_schedule (Suc (retryAttempts c) - Suc a) (retryDelay c),
       map (request_at c w s m ad) [Suc a..<Suc (retryAttempts c)])"
    using Suc.hyps(1) [OF n] lt Suc.prems by simp
  have ns: "\<not> succeeds_at w a" using Suc.prems(2) lt by simp
  have sch: "retry_schedule (Suc (retryAttempts c) - a) (retryDelay c) =
      None # Some (retryDelay c) # retry_schedule (Suc (retryAttempts c) - Suc a) (retryDelay c)"
    using lt retry_schedule_Suc [of "retryAttempts c - a" "retryDelay c"] by (simp add: Suc_diff_le)
  have rq: "[a..<Suc (retryAttempts c)] = a # [Suc a..<Suc (retryAttempts c)]"
    using lt by (simp add: upt_conv_Cons)
  show ?case using ns lt ih sch rq
    by (subst forward_loop_step) simp
qed

lemma example_forward_loop_failure:
  assumes "a \<le> retryAttempts c"
    and "\<And>i. a \<le> i \<Longrightarrow> i \<le> retryAttempts c \<Longrightarrow> \<not> (succeeds_at w i \<and> body_readable_at w i)"
  shows "observable (example_forward_loop c w s m ad a) =
           (False, retry_schedule (Suc (retryAttempts c) - a) (retryDelay c),
            map (request_at c w s m ad) [a..<Suc (retryAttempts c)])"
  using assms
proof (induction "retryAttempts c - a" arbitrary: a)
  case 0
  then have "a = retryAttempts c" by simp
  with 0 show ?case by (subst example_forward_loop_step) simp
next
  case (Suc n)
  then have lt: "a < retryAttempts c" and n: "n = retryAttempts c - Suc a" by simp_all
  have ih: "observable (example_forward_loop c w s m ad (Suc a)) =
      (False, retry_schedule (Suc (retryAttempts c) - Suc a) (retryDelay c),
       map (request_at c w s m ad) [Suc a..<Suc (retryAttempts c)])"
    using Suc.hyps(1) [OF n] lt Suc.prems by simp
  have ns: "\<not> (succeeds_at w a \<and> body_readable_at w a)" using Suc.prems(2) lt by simp
  have sch: "retry_schedule (Suc (retryAttempts c) - a) (retryDelay c) =
      None # Some (retryDelay c) # retry_schedule (Suc (retryAttempts c) - Suc a) (retryDelay c)"
    using lt retry_schedule_Suc [of "retryAttempts c - a" "retryDelay c"] by (simp add: Suc_diff_le)
  have rq: "[a..<Suc (retryAttempts c)] = a # [Suc a..<Suc (retryAttempts c)]"
    using lt by (simp add: upt_conv_Cons)
  show ?case using ns lt ih sch rq
    by (subst example_forward_loop_step) simp
qed

lemma example_forward_loop_success:
  assumes "a \<le> k" and "k \<le> retryAttempts c"
    and "\<And>i. a \<le> i \<Longrightarrow> i < k \<Longrightarrow> \<not> succeeds_at w i"
    and "succeeds_at w k" and "body_readable_at w k"
  shows "observable (example_forward_loop c w s m ad a) =
           (True, retry_schedule (Suc k - a) (retryDelay c), map (request_at c w s m ad) [a..<Suc k])"
  using assms
proof (induction "k - a" arbitrary: a)
  case 0
  then have "a = k" by simp
  with 0 show ?case by (subst example_forward_loop_step) simp
next
  case (Suc n)
  then have lt: "a < k" and n: "n = k - Suc a" by simp_all
  have ih: "observable (example_forward_loop c w s m ad (Suc a)) =
      (True, retry_schedule (Suc k - Suc a) (retryDelay c), map (request_at c w s m ad) [Suc a..<Suc k])"
    using Suc.hyps(1) [OF n] lt Suc.prems by simp
  have ns: "\<not> succeeds_at w a" using Suc.prems(3) lt by simp
  have sch: "retry_schedule (Suc k - a) (retryDelay c) =
      None # Some (retryDelay c) # retry_schedule (Suc k - Suc a) (retryDelay c)"
    using lt retry_schedule_Suc [of "k - a" "retryDelay c"] by (simp add: Suc_diff_le)
  have rq: "[a..<Suc k] = a # [Suc a..<Suc k]" using lt by (simp add: upt_conv_Cons)
  show ?case using ns lt Suc.prems(2) ih sch rq
    by (subst example_forward_loop_step) simp
qed

text \<open>
  The same for whole runs. The example program reads the response body before it tests
  the status, so an attempt succeeds there when, in addition, the body could be read; a
  success response whose body cannot be read is handled by the \<^verbatim>\<open>catch\<close> block like
  any transport error.
\<close>

lemma forwardMessageToAPI_failure:
  assumes "1 \<le> retryAttempts c" and "fails_upto w (retryAttempts c)"
  shows "observable (forwardMessageToAPI c w s m ad) =
           (False, retry_schedule (retryAttempts c) (retryDelay c),
            map (request_at c w s m ad) [1..<Suc (retryAttempts c)])"
proof -
  have "observable (forward_loop c w s m ad 1) =
      (False, retry_schedule (Suc (retryAttempts c) - 1) (retryDelay c),
       map (request_at c w s m ad) [1..<Suc (retryAttempts c)])"
    using assms(1) no_success_upto [OF assms(2)] by (intro forward_loop_failure) simp_all
  then show ?thesis by (simp add: forwardMessageToAPI_def)
qed

lemma example_permanent_failure:
  assumes "1 \<le> retryAttempts c" and "fails_upto w (retryAttempts c)"
  shows "observable (example_forwardMessageToAPI c w s m ad) =
           (False, retry_schedule (retryAttempts c) (retryDelay c),
            map (request_at c w s m ad) [1..<Suc (retryAttempts c)])"
proof -
  have "observable (example_forward_loop c w s m ad 1) =
      (False, retry_schedule (Suc (retryAttempts c) - 1) (retryDelay c),
       map (request_at c w s m ad) [1..<Suc (retryAttempts c)])"
    using assms(1) no_success_upto [OF assms(2)] by (intro example_forward_loop_failure) simp_all
  then show ?thesis by (simp add: example_forwardMessageToAPI_def)
qed

lemma forwardMessageToAPI_success:
  assumes "1 \<le> k" and "k \<le> retryAttempts c" and "fails_upto w (k - 1)" and "succeeds_at w k"
  shows "observable (forwardMessageToAPI c w s m ad) =
           (True, retry_schedule k (retryDelay c), map (request_at c w s m ad) [1..<Suc k])"
proof -
  have "observable (forward_loop c w s m ad 1) =
      (True, retry_schedule (Suc k - 1) (retryDelay c), map (request_at c w s m ad) [1..<Suc k])"
    using assms(1,2,4) no_success_upto [OF assms(3)] by (intro forward_loop_success) simp_all
  then show ?thesis by (simp add: forwardMessageToAPI_def)
qed

lemma example_success_stops_retrying:
  assumes "1 \<le> k" and "k \<le> retryAttempts c" and "fails_upto w (k - 1)"
    and "succeeds_at w k" and "body_readable_at w k"
  shows "observable (example_forwardMessageToAPI c w s m ad) =
           (True, retry_schedule k (retryDelay c), map (request_at c w s m ad) [1..<Suc k])"
proof -
  have "observable (example_forward_loop c w s m ad 1) =
      (True, retry_schedule (Suc k - 1) (retryDelay c), map (request_at c w s m ad) [1..<Suc k])"
    using assms(1,2,4,5) no_success_upto [OF assms(3)] by (intro example_forward_loop_success) simp_all
  then show ?thesis by (simp add: example_forwardMessageToAPI_def)
qed

subsection \<open>Example worlds\<close>

lemma world_down_fails: "fails_upto world_down 3"
  by (simp add: world_down_def ex_response_def ok_def eval_nat_numeral)

lemma world_third_fails_twice: "fails_upto world_third (3 - 1)"
  by (simp add: world_third_def ex_response_def ok_def eval_nat_numeral)

lemma world_third_succeeds: "succeeds_at world_third 3"
  by (simp add: world_third_def ex_response_def ok_def)

lemma world_third_readable: "body_readable_at world_third 3"
  by (simp add: world_third_def ex_response_def)

subsection \<open>Permanent failure\<close>

text \<open>
  Claim C2. With \<open>retryAttempts = N \<ge> 1\<close>, if every one of the attempts \<open>1..N\<close> fails (the
  call rejects, or the response has a non-success status), \<open>forwardMessageToAPI\<close> returns
  false after exactly \<open>N\<close> HTTP attempts, with a wait of \<open>retryDelay\<close> between consecutive
  attempts: \<open>N - 1\<close> waits, each \<open>retryDelay\<close> long, and none after the last attempt.
  This holds of the bot's function and of the copy in the example program.
\<close>

theorem permanent_failure_exhausts_retries:
  assumes "1 \<le> retryAttempts c" and "fails_upto w (retryAttempts c)"
  shows "run_summary (forwardMessageToAPI c w s m ad) =
           (False, retryAttempts c, replicate (retryAttempts c - 1) (retryDelay c)) \<and>
         schedule (snd (forwardMessageToAPI c w s m ad)) =
           retry_schedule (retryAttempts c) (retryDelay c) \<and>
         run_summary (example_forwardMessageToAPI c w s m ad) =
           (False, retryAttempts c, replicate (retryAttempts c - 1) (retryDelay c)) \<and>
         schedule (snd (example_forwardMessageToAPI c w s m ad)) =
           retry_schedule (retryAttempts c) (retryDelay c)"
  using summary_of_observable(1,2) [OF forwardMessageToAPI_failure [OF assms, of s m ad]]
    summary_of_observable(1,2) [OF example_permanent_failure [OF assms, of s m ad]]
  by simp

theorem permanent_failure_witness:
  "1 \<le> retryAttempts ex_config \<and> fails_upto world_down (retryAttempts ex_config) \<and>
   run_summary (forwardMessageToAPI ex_config world_down ''15551234567@c.us'' ''hello'' []) =
     (False, 3, [1000, 1000]) \<and>
   schedule (snd (forwardMessageToAPI ex_config world_down ''15551234567@c.us'' ''hello'' [])) =
     [None, Some 1000, None, Some 1000, None] \<and>
   run_summary (example_forwardMessageToAPI ex_config world_down ''15551234567@c.us'' ''hello'' []) =
     (False, 3, [1000, 1000])"
proof -
  have n: "retryAttempts ex_config = 3" "retryDelay ex_config = 1000" by (simp_all add: ex_config_def)
  have h1: "1 \<le> retryAttempts ex_config" by (simp add: n)
  have h2: "fails_upto world_down (retryAttempts ex_config)" by (simp only: n world_down_fails)
  show ?thesis
    using h1 h2 permanent_failure_exhausts_retries [OF h1 h2, of "''15551234567@c.us''" "''hello''" "[]"]
    by (simp add: n eval_nat_numeral)
qed

subsection \<open>Success on attempt \<open>k\<close>\<close>

text \<open>
  With \<open>retryAttempts = N \<ge> 1\<close> and \<open>k \<le> N\<close>, if attempts \<open>1..k-1\<close> fail and attempt \<open>k\<close>
  gets a response with a success status, the bot's \<open>forwardMessageToAPI\<close> returns true
  right after attempt \<open>k\<close>: it has made exactly \<open>k\<close> HTTP attempts (the requests of
  attempts \<open>1..k\<close>, with \<open>k - 1\<close> waits between them) and nothing follows the \<open>k\<close>-th.
  The copy in the example program does the same when the body of that response could
  be read, which it does before it looks at the status.
\<close>

theorem success_stops_retrying:
  assumes "1 \<le> k" and "k \<le> retryAttempts c" and "fails_upto w (k - 1)" and "succeeds_at w k"
  shows "run_summary (forwardMessageToAPI c w s m ad) = (True, k, replicate (k - 1) (retryDelay c)) \<and>
         schedule (snd (forwardMessageToAPI c w s m ad)) = retry_schedule k (retryDelay c) \<and>
         requests (snd (forwardMessageToAPI c w s m ad)) = map (request_at c w s m ad) [1..<Suc k] \<and>
         (body_readable_at w k \<longrightarrow>
            run_summary (example_forwardMessageToAPI c w s m ad) =
              (True, k, replicate (k - 1) (retryDelay c)) \<and>
            schedule (snd (example_forwardMessageToAPI c w s m ad)) = retry_schedule k (retryDelay c) \<and>
            requests (snd (example_forwardMessageToAPI c w s m ad)) =
              map (request_at c w s m ad) [1..<Suc k])"
  using summary_of_observable [OF forwardMessageToAPI_success [OF assms, of s m ad]]
    summary_of_observable [OF example_success_stops_retrying [OF assms, of s m ad]]
  by simp

text \<open>Success on the last attempt, and on the second of three.\<close>

theorem success_stops_retrying_witness:
  "(1::nat) \<le> 3 \<and> 3 \<le> retryAttempts ex_config \<and> fails_upto world_third (3 - 1) \<and>
   succeeds_at world_third 3 \<and> body_readable_at world_third 3 \<and>
   run_summary (forwardMessageToAPI ex_config world_third ''15551234567@c.us'' ''hello'' []) =
     (True, 3, [1000, 1000]) \<and>
   schedule (snd (forwardMessageToAPI ex_config world_third ''15551234567@c.us'' ''hello'' [])) =
     [None, Some 1000, None, Some 1000, None] \<and>
   run_summary (example_forwardMessageToAPI ex_config world_third ''15551234567@c.us'' ''hello'' []) =
     (True, 3, [1000, 1000])"
proof -
  have h1: "(1::nat) \<le> 3" by simp
  have h2: "3 \<le> retryAttempts ex_config" by (simp add: ex_config_def)
  note h3 = world_third_fails_twice and h4 = world_third_succeeds and h5 = world_third_readable
  have d: "retryDelay ex_config = 1000" by (simp add: ex_config_def)
  show ?thesis
    using h1 h2 h3 h4 h5
      success_stops_retrying [OF h1 h2 h3 h4, of "''15551234567@c.us''" "''hello''" "[]"]
    by (simp add: d eval_nat_numeral)
qed

lemma success_on_second_of_three:
  "retryAttempts ex_config = 3 \<and> fails_upto world_second (2 - 1) \<and> succeeds_at world_second 2 \<and>
   run_summary (forwardMessageToAPI ex_config world_second ''15551234567@c.us'' ''hello'' []) =
     (True, 2, [1000]) \<and>
   schedule (snd (forwardMessageToAPI ex_config world_second ''15551234567@c.us'' ''hello'' [])) =
     [None, Some 1000, None] \<and>
   run_summary (example_forwardMessageToAPI ex_config world_second ''15551234567@c.us'' ''hello'' []) =
     (True, 2, [1000])"
proof -
  have n: "retryAttempts ex_config = 3" "retryDelay ex_config = 1000" by (simp_all add: ex_config_def)
  have h1: "(1::nat) \<le> 2" by simp
  have h2: "2 \<le> retryAttempts ex_config" by (simp add: n)
  have h3: "fails_upto world_second (2 - 1)"
    by (simp add: world_second_def ex_response_def ok_def eval_nat_numeral)
  have h4: "succeeds_at world_second 2" by (simp add: world_second_def ex_response_def ok_def)
  have h5: "body_readable_at world_second 2" by (simp add: world_second_def ex_response_def)
  show ?thesis
    using n h3 h4
      summary_of_observable(1,2)
        [OF forwardMessageToAPI_success [OF h1 h2 h3 h4, of "''15551234567@c.us''" "''hello''" "[]"]]
      summary_of_observable(1)
        [OF example_success_stops_retrying [OF h1 h2 h3 h4 h5, of "''15551234567@c.us''" "''hello''" "[]"]]
    by (simp add: eval_nat_numeral)
qed

text \<open>
  Claim C7, at a concrete endpoint. The claim says that a success status on attempt
  \<open>k\<close> ends the run with true and no further attempt, and it names both programs. Take
  \<open>retryAttempts = 3\<close>, \<open>retryDelay = 1000\<close> and an endpoint that answers every request
  with status 200 and a body that cannot be read, so that the claim's hypotheses hold
  with \<open>k = 1\<close>. The bot tests \<^verbatim>\<open>response.ok\<close> first and returns true after one
  attempt. The example program awaits \<^verbatim>\<open>response.text()\<close> before it tests
  \<^verbatim>\<open>response.ok\<close>; the rejection lands in its \<^verbatim>\<open>catch\<close> block, and it waits, posts
  the event again, and after three attempts returns false.
\<close>

theorem example_retries_after_success_status:
  "(1::nat) \<le> 1 \<and> 1 \<le> retryAttempts ex_config \<and> fails_upto world_unreadable (1 - 1) \<and>
   succeeds_at world_unreadable 1 \<and>
   run_summary (forwardMessageToAPI ex_config world_unreadable ''15551234567@c.us'' ''hello'' []) =
     (True, 1, []) \<and>
   run_summary (example_forwardMessageToAPI ex_config world_unreadable ''15551234567@c.us'' ''hello'' []) =
     (False, 3, [1000, 1000]) \<and>
   schedule (snd (example_forwardMessageToAPI ex_config world_unreadable ''15551234567@c.us'' ''hello'' [])) =
     [None, Some 1000, None, Some 1000, None]"
proof -
  have n: "retryAttempts ex_config = 3" "retryDelay ex_config = 1000" by (simp_all add: ex_config_def)
  have h1: "(1::nat) \<le> 1" by simp
  have h2: "1 \<le> retryAttempts ex_config" by (simp add: n)
  have h3: "fails_upto world_unreadable (1 - 1)" by simp
  have h4: "succeeds_at world_unreadable 1"
    by (simp add: world_unreadable_def ex_response_def ok_def)
  have unreadable: "\<And>i. \<not> (succeeds_at world_unreadable i \<and> body_readable_at world_unreadable i)"
    by (simp add: world_unreadable_def ex_response_def)
  have ex: "observable (example_forwardMessageToAPI ex_config world_unreadable ''15551234567@c.us'' ''hello'' []) =
      (False, retry_schedule 3 (retryDelay ex_config),
       map (request_at ex_config world_unreadable ''15551234567@c.us'' ''hello'' [])
         [1..<Suc (retryAttempts ex_config)])"
    using example_forward_loop_failure
      [of 1 ex_config world_unreadable "''15551234567@c.us''" "''hello''" "[]"] unreadable
    by (simp add: example_forwardMessageToAPI_def n)
  show ?thesis
    using h2 h3 h4
      summary_of_observable(1)
        [OF forwardMessageToAPI_success [OF h1 h2 h3 h4, of "''15551234567@c.us''" "''hello''" "[]"]]
      summary_of_observable(1,2) [OF ex]
    by (simp add: n eval_nat_numeral)
qed

subsection \<open>The logging flags\<close>

lemma request_at_flags [simp]:
  "request_at (c\<lparr>logSuccess := ls, logErrors := le, debug := dbg\<rparr>) w s m ad a = request_at c w s m ad a"
  by (simp add: request_at_def api_request_def)

lemma forward_loop_flags:
  "observable (forward_loop (c\<lparr>logSuccess := ls, logErrors := le, debug := dbg\<rparr>) w s m ad a) =
   observable (forward_loop c w s m ad a)"
proof (induction "Suc (retryAttempts c) - a" arbitrary: a)
  case 0
  then show ?case
    by (subst (1 2) forward_loop_step) simp
next
  case (Suc n)
  then have "n = Suc (retryAttempts c) - Suc a" by simp
  from Suc.hyps(1) [OF this] show ?case
    by (subst (1 2) forward_loop_step) simp
qed

lemma example_forward_loop_flags:
  "observable (example_forward_loop (c\<lparr>logSuccess := ls, logErrors := le, debug := dbg\<rparr>) w s m ad a) =
   observable (example_forward_loop c w s m ad a)"
proof (induction "Suc (retryAttempts c) - a" arbitrary: a)
  case 0
  then show ?case
    by (subst (1 2) example_forward_loop_step) simp
next
  case (Suc n)
  then have "n = Suc (retryAttempts c) - Suc a" by simp
  from Suc.hyps(1) [OF this] show ?case
    by (subst (1 2) example_forward_loop_step) simp
qed

lemma summary_from_observable:
  "run_summary r = (fst (observable r), length (filter (\<lambda>x. x = None) (fst (snd (observable r)))),
     concat (map (\<lambda>x. case x of None \<Rightarrow> [] | Some d \<Rightarrow> [d]) (fst (snd (observable r)))))"
  by (simp add: run_summary_def observable_def attempts_def delays_def)

text \<open>
  Claim C9. Take any event, any sequence of HTTP results and any two settings of the
  flags \<open>logSuccess\<close>, \<open>logErrors\<close> and \<open>debug\<close>, everything else in the configuration being
  equal. The two runs of \<open>forwardMessageToAPI\<close> return the same boolean, make the same
  number of attempts with the same requests, and wait the same delays at the same
  places: the flags change console lines only. This holds of the bot's function and of
  the copy in the example program.
\<close>

theorem logging_flags_do_not_interfere:
  "run_summary (forwardMessageToAPI (c\<lparr>logSuccess := ls, logErrors := le, debug := dbg\<rparr>) w s m ad) =
     run_summary (forwardMessageToAPI (c\<lparr>logSuccess := ls', logErrors := le', debug := dbg'\<rparr>) w s m ad) \<and>
   observable (forwardMessageToAPI (c\<lparr>logSuccess := ls, logErrors := le, debug := dbg\<rparr>) w s m ad) =
     observable (forwardMessageToAPI (c\<lparr>logSuccess := ls', logErrors := le', debug := dbg'\<rparr>) w s m ad) \<and>
   run_summary (example_forwardMessageToAPI (c\<lparr>logSuccess := ls, logErrors := le, debug := dbg\<rparr>) w s m ad) =
     run_summary (example_forwardMessageToAPI (c\<lparr>logSuccess := ls', logErrors := le', debug := dbg'\<rparr>) w s m ad) \<and>
   observable (example_forwardMessageToAPI (c\<lparr>logSuccess := ls, logErrors := le, debug := dbg\<rparr>) w s m ad) =
     observable (example_forwardMessageToAPI (c\<lparr>logSuccess := ls', logErrors := le', debug := dbg'\<rparr>) w s m ad)"
proof -
  have bot: "observable (forwardMessageToAPI (c\<lparr>logSuccess := ls, logErrors := le, debug := dbg\<rparr>) w s m ad) =
      observable (forwardMessageToAPI (c\<lparr>logSuccess := ls', logErrors := le', debug := dbg'\<rparr>) w s m ad)"
    by (simp only: forwardMessageToAPI_def forward_loop_flags)
  have ex: "observable (example_forwardMessageToAPI (c\<lparr>logSuccess := ls, logErrors := le, debug := dbg\<rparr>) w s m ad) =
      observable (example_forwardMessageToAPI (c\<lparr>logSuccess := ls', logErrors := le', debug := dbg'\<rparr>) w s m ad)"
    by (simp only: example_forwardMessageToAPI_def example_forward_loop_flags)
  show ?thesis
    by (simp only: summary_from_observable bot ex simp_thms)
qed

subsection \<open>The payload\<close>

lemma requests_of_forward_loop:
  "set (requests (snd (forward_loop c w s m ad a))) \<subseteq> request_at c w s m ad ` {a..retryAttempts c}"
proof (induction "Suc (retryAttempts c) - a" arbitrary: a)
  case 0
  have "observable (forward_loop c w s m ad a) = (False, [], [])"
    using 0 by (subst forward_loop_step) simp
  then show ?case by (simp add: observable_def)
next
  case (Suc n)
  then have le: "a \<le> retryAttempts c" and n: "n = Suc (retryAttempts c) - Suc a" by simp_all
  have ih: "set (requests (snd (forward_loop c w s m ad (Suc a)))) \<subseteq>
      request_at c w s m ad ` {Suc a..retryAttempts c}"
    by (rule Suc.hyps(1) [OF n])
  have sub: "request_at c w s m ad ` {Suc a..retryAttempts c} \<subseteq> request_at c w s m ad ` {a..retryAttempts c}"
    by auto
  have here: "request_at c w s m ad a \<in> request_at c w s m ad ` {a..retryAttempts c}"
    using le by simp
  have "set (snd (snd (observable (forward_loop c w s m ad a)))) \<subseteq>
      request_at c w s m ad ` {a..retryAttempts c}"
    using ih sub here by (subst forward_loop_step) (auto simp: observable_def)
  then show ?case by (simp add: observable_def)
qed

lemma req_body_request_at: "req_body (request_at c w s m ad a) = build_payload s m (clock w a) ad"
  by (simp add: request_at_def api_request_def)

text \<open>
  Every request the pipeline sends carries the payload \<open>build_payload\<close> makes for one
  of the attempts.
\<close>

lemma posted_payloads:
  assumes "r \<in> set (requests (snd (forwardMessageToAPI c w s m ad)))"
  shows "\<exists>a. req_body r = build_payload s m (clock w a) ad"
proof -
  from assms have "r \<in> request_at c w s m ad ` {1..retryAttempts c}"
    using requests_of_forward_loop [of c w s m ad 1] by (auto simp: forwardMessageToAPI_def)
  then obtain a where "r = request_at c w s m ad a" by blast
  then show ?thesis by (auto simp: req_body_request_at)
qed

text \<open>
  Sender, message and the metadata fields of the event are in the payload that the
  message handler's call produces.
\<close>

lemma payload_carries_event_fields:
  "map (get_prop (build_payload (msg_from m) (msg_body m) stamp (additionalData_of m c)))
     [''sender'', ''message'', ''messageId'', ''chatType'', ''chatName'', ''messageType'',
      ''hasMedia'', ''isFromMe''] =
   [Some (JStr (msg_from m)), Some (JStr (msg_body m)), Some (JStr (msg_id_serialized m)),
    Some (JStr (if isGroup c then ''group'' else ''private'')),
    Some (JStr (case chat_name c of None \<Rightarrow> ''Unknown'' | Some n \<Rightarrow> if n = [] then ''Unknown'' else n)),
    Some (JStr (msg_type m)), Some (JBool (msg_hasMedia m)), Some (JBool (msg_fromMe m))]"
  by (simp add: build_payload_def spread_def additionalData_of_def get_prop_def)

text \<open>
  The payload's \<^verbatim>\<open>timestamp\<close> is not the forwarding time: \<^verbatim>\<open>additionalData\<close> has a
  \<^verbatim>\<open>timestamp\<close> of its own (the message's epoch seconds), and the spread assigns it
  after the ISO string was put there.
\<close>

lemma payload_timestamp_overridden:
  "get_prop (build_payload s b stamp (additionalData_of m c)) ''timestamp'' = Some (jnat (msg_timestamp m))"
  by (simp add: build_payload_def spread_def additionalData_of_def get_prop_def)

text \<open>Without a \<^verbatim>\<open>timestamp\<close> in \<^verbatim>\<open>additionalData\<close> the ISO string stays.\<close>

lemma payload_timestamp_default:
  "get_prop (build_payload s b stamp []) ''timestamp'' = Some (JStr stamp)"
  by (simp add: build_payload_def spread_def get_prop_def)

text \<open>
  Claim C3, at a concrete event. The claim says that every payload posted carries an
  ISO-8601 forwarding timestamp under the key \<^verbatim>\<open>timestamp\<close>. For a message with
  \<^verbatim>\<open>msg.timestamp = 1694456538\<close>, forwarded to an endpoint that accepts on the third
  attempt, each of the three payloads posted holds the number 1694456538 there, which is
  not the clock's ISO string.
\<close>

theorem forwarded_timestamp_is_message_time:
  "map_option (\<lambda>r. map (\<lambda>q. get_prop (req_body q) ''timestamp'') (requests (snd r)))
     (forward_event ex_config world_third ex_msg ex_chat) =
   Some [Some (jnat 1694456538), Some (jnat 1694456538), Some (jnat 1694456538)] \<and>
   jnat 1694456538 \<noteq> JStr (clock world_third 1)"
proof -
  have fwd: "forward_event ex_config world_third ex_msg ex_chat =
      Some (forwardMessageToAPI ex_config world_third (msg_from ex_msg) (msg_body ex_msg)
              (additionalData_of ex_msg ex_chat))"
    by (simp add: forward_event_def shouldForwardMessage_def ex_config_def ex_msg_def ex_chat_def
        additionalData_of_def get_prop_def)
  have h1: "(1::nat) \<le> 3" by simp
  have h2: "3 \<le> retryAttempts ex_config" by (simp add: ex_config_def)
  have upt: "[1..<Suc 3] = [1, 2, 3]" by (simp add: upt_rec)
  have "observable (forwardMessageToAPI ex_config world_third (msg_from ex_msg) (msg_body ex_msg)
              (additionalData_of ex_msg ex_chat)) =
      (True, retry_schedule 3 (retryDelay ex_config),
       map (request_at ex_config world_third (msg_from ex_msg) (msg_body ex_msg)
              (additionalData_of ex_msg ex_chat)) [1, 2, 3])"
    using forwardMessageToAPI_success [OF h1 h2 world_third_fails_twice world_third_succeeds]
    unfolding upt .
  then have rq: "requests (snd (forwardMessageToAPI ex_config world_third (msg_from ex_msg)
              (msg_body ex_msg) (additionalData_of ex_msg ex_chat))) =
      map (request_at ex_config world_third (msg_from ex_msg) (msg_body ex_msg)
              (additionalData_of ex_msg ex_chat)) [1, 2, 3]"
    by (simp add: observable_def)
  have ts: "msg_timestamp ex_msg = 1694456538" by (simp add: ex_msg_def)
  show ?thesis
    by (simp add: fwd rq req_body_request_at payload_timestamp_overridden ts jnat_def)
qed

section \<open>Properties of the gateway\<close>

subsection \<open>Ways through the handler\<close>


lemma authorized_ex [simp]: "authorized_send ex_gateway (ex_request b)"
  by (simp add: authorized_send_def ex_gateway_def ex_request_def)

lemma handle_authorized_send:
  "authorized_send g req \<Longrightarrow> handle_request g req = post_send g (concat (chunks req))"
  by (auto simp: authorized_send_def handle_request_def Let_def)

lemma field_of_Some_not_null: "field_of data k = Some v \<Longrightarrow> data \<noteq> JNull"
  by (auto simp: field_of_def)

lemma parse_examples:
  "ex_parse ex_body_text = Inr ex_data_text"
  "ex_parse ex_body_group = Inr ex_data_group"
  "ex_parse ex_body_embedded = Inr ex_data_embedded"
  "ex_parse ex_body_empty_to = Inr ex_data_empty_to"
  "ex_parse ex_body_location_no_latitude = Inr ex_data_location_no_latitude"
  "ex_parse ex_body_location_numeric_to = Inr ex_data_location_numeric_to"
  "ex_parse ex_body_location_zero = Inr ex_data_location_zero"
  "ex_parse ex_body_location_zero_numeric_to = Inr ex_data_location_zero_numeric_to"
  "ex_parse ex_body_location_no_recipient = Inr ex_data_location_no_recipient"
  "ex_parse ex_body_location_zero_no_message = Inr ex_data_location_zero_no_message"
  "ex_parse ex_body_malformed = Inl ex_syntax_error"
  by (simp_all add: ex_parse_def ex_body_text_def ex_body_group_def ex_body_embedded_def ex_body_empty_to_def
      ex_body_location_no_latitude_def ex_body_location_numeric_to_def ex_body_location_zero_def
      ex_body_location_zero_numeric_to_def ex_body_location_no_recipient_def
      ex_body_location_zero_no_message_def ex_body_malformed_def)

lemma sent_respond [simp]: "sent (respond r) = []" "response (respond r) = r"
  by (simp_all add: respond_def)

lemma sent_send_failed [simp]: "sent (send_failed e calls) = calls"
  by (simp add: send_failed_def)

lemma sent_send_and_report [simp]: "sent (send_and_report g p c) = [(p, c)]"
  by (simp add: send_and_report_def split: sum.splits)

lemma format_string:
  "format_phone_number g (Some (JStr t)) =
     Inr (Some (JStr (if str_includes t ''@c.us'' \<or> str_includes t ''@g.us'' then t else t @ ''@c.us'')))"
  by (simp add: format_phone_number_def)

lemma format_has_includes:
  assumes "has_includes to"
  obtains p where "format_phone_number g to = Inr p"
  using assms by (cases to rule: has_includes.cases) (simp_all add: format_phone_number_def)

lemma format_without_includes:
  assumes "\<not> has_includes to"
  obtains e where "format_phone_number g to = Inl e"
  using assms by (cases to rule: has_includes.cases) (simp_all add: format_phone_number_def)

text \<open>The four ways through the callback once the body has parsed to a value other than null.\<close>

lemma post_send_missing:
  assumes "JSON_parse g body = Inr data"
    and "\<not> truthy (field_of data ''to'') \<or> \<not> truthy (field_of data ''message'')"
  shows "post_send g body =
           (if data = JNull then send_failed cannot_destructure []
            else respond (json_response 400 [(''error'', JStr ''Missing required fields: to, message'')]))"
  using assms by (auto simp: post_send_def Let_def)

lemma post_send_text:
  assumes "JSON_parse g body = Inr data"
    and "truthy (field_of data ''to'')" and "truthy (field_of data ''message'')"
    and "format_phone_number g (field_of data ''to'') = Inr p"
    and "field_of data ''type'' = None \<or> field_of data ''type'' = Some (JStr ''text'')"
  shows "post_send g body = send_and_report g p (TextContent (field_of data ''message''))"
proof -
  have "data \<noteq> JNull" using assms(2) by (auto simp: field_of_def)
  then show ?thesis using assms by (auto simp: post_send_def Let_def)
qed

lemma post_send_location:
  assumes "JSON_parse g body = Inr data"
    and "truthy (field_of data ''to'')" and "truthy (field_of data ''message'')"
    and "format_phone_number g (field_of data ''to'') = Inr p"
    and "field_of data ''type'' = Some (JStr ''location'')"
  shows "post_send g body =
           (if \<not> truthy (field_of data ''latitude'') \<or> \<not> truthy (field_of data ''longitude'')
            then respond (json_response 400 [(''error'', JStr ''Location requires latitude and longitude'')])
            else send_and_report g p
                   (LocationContent (field_of data ''latitude'') (field_of data ''longitude'')
                      (field_of data ''name'') (field_of data ''address'')))"
proof -
  have "data \<noteq> JNull" using assms(2) by (auto simp: field_of_def)
  then show ?thesis using assms by (auto simp: post_send_def Let_def)
qed

lemma post_send_throws:
  assumes "JSON_parse g body = Inr data"
    and "truthy (field_of data ''to'')" and "truthy (field_of data ''message'')"
    and "format_phone_number g (field_of data ''to'') = Inl e"
  shows "post_send g body = send_failed e []"
proof -
  have "data \<noteq> JNull" using assms(2) by (auto simp: field_of_def)
  then show ?thesis using assms by (auto simp: post_send_def Let_def)
qed

lemma post_send_calls:
  assumes "JSON_parse g body = Inr data"
  shows "sent (post_send g body) = [] \<or>
         (\<exists>p c. format_phone_number g (field_of data ''to'') = Inr p \<and> sent (post_send g body) = [(p, c)])"
  using assms by (auto simp: post_send_def Let_def split: sum.splits)

lemma post_send_location_no_call:
  assumes "JSON_parse g body = Inr data"
    and "field_of data ''type'' = Some (JStr ''location'')"
    and "\<not> truthy (field_of data ''latitude'') \<or> \<not> truthy (field_of data ''longitude'')"
  shows "sent (post_send g body) = []"
  using assms by (auto simp: post_send_def Let_def split: sum.splits)


lemma ex_chunks [simp]: "concat (chunks (ex_request b)) = b"
  by (simp add: ex_request_def)

lemma ex_parse_gateway [simp]: "JSON_parse ex_gateway = ex_parse"
  by (simp add: ex_gateway_def)

lemma code_send_failed [simp]: "code (response (send_failed e calls)) = 500"
  by (simp add: send_failed_def json_response_def)

subsection \<open>Authentication\<close>

text \<open>
  Claim C5. A request whose method is not \<^verbatim>\<open>OPTIONS\<close> and whose \<^verbatim>\<open>Authorization\<close>
  header is absent or is not exactly \<^verbatim>\<open>Bearer\<close>, a space and the token, is answered
  401 with the body \<^verbatim>\<open>{error: "Unauthorized"}\<close>. The outcome is this fixed value
  whatever the path and the body are and whatever the parser and the session would
  do: nothing is routed, parsed or sent before the check.
\<close>

theorem unauthenticated_request_gets_401:
  assumes "req_method req \<noteq> ''OPTIONS''"
    and "authorization req \<noteq> Some (''Bearer '' @ HTTP_AUTH_TOKEN g)"
  shows "handle_request g req =
           \<lparr>response = json_response 401 [(''error'', JStr ''Unauthorized'')], sent = [], logged = []\<rparr>"
  using assms by (simp add: handle_request_def unauthorized_def respond_def Let_def)

theorem unauthenticated_request_witness:
  "req_method ((ex_request ex_body_text)\<lparr>authorization := None\<rparr>) \<noteq> ''OPTIONS'' \<and>
   authorization ((ex_request ex_body_text)\<lparr>authorization := None\<rparr>) \<noteq>
     Some (''Bearer '' @ HTTP_AUTH_TOKEN ex_gateway) \<and>
   code (response (handle_request ex_gateway ((ex_request ex_body_text)\<lparr>authorization := None\<rparr>))) = 401 \<and>
   sent (handle_request ex_gateway ((ex_request ex_body_text)\<lparr>authorization := None\<rparr>)) = []"
proof -
  have h1: "req_method ((ex_request ex_body_text)\<lparr>authorization := None\<rparr>) \<noteq> ''OPTIONS''"
    by (simp add: ex_request_def)
  have h2: "authorization ((ex_request ex_body_text)\<lparr>authorization := None\<rparr>) \<noteq>
      Some (''Bearer '' @ HTTP_AUTH_TOKEN ex_gateway)"
    by simp
  show ?thesis
    using h1 h2 unauthenticated_request_gets_401 [OF h1 h2]
    by (simp add: json_response_def)
qed

subsection \<open>Malformed bodies\<close>

text \<open>
  Claim C4, as the code has it. An authenticated \<^verbatim>\<open>POST /send\<close> whose body
  \<^verbatim>\<open>JSON.parse\<close> rejects is answered by the handler's \<^verbatim>\<open>catch\<close> block: status 500
  with the body \<^verbatim>\<open>{error: "Failed to send message", details: <the parser's message>}\<close>.
  The answer carries a machine-readable \<^verbatim>\<open>error\<close> field and the request is not
  dropped, the session is not asked to send, but the status is 500 and not a 4xx.
\<close>

theorem malformed_json_gets_500:
  assumes "authorized_send g req" and "JSON_parse g (concat (chunks req)) = Inl e"
  shows "handle_request g req =
           \<lparr>response = json_response 500
              [(''error'', JStr ''Failed to send message''), (''details'', JStr (err_message e))],
            sent = [], logged = [e]\<rparr>"
  using assms by (simp add: handle_authorized_send post_send_def send_failed_def)

theorem malformed_json_witness:
  "authorized_send ex_gateway (ex_request ex_body_malformed) \<and>
   JSON_parse ex_gateway (concat (chunks (ex_request ex_body_malformed))) = Inl ex_syntax_error \<and>
   res_body (response (handle_request ex_gateway (ex_request ex_body_malformed))) =
     Some (JObj [(''error'', JStr ''Failed to send message''),
                 (''details'', JStr ''Unexpected end of JSON input'')]) \<and>
   sent (handle_request ex_gateway (ex_request ex_body_malformed)) = []"
proof -
  have h1: "authorized_send ex_gateway (ex_request ex_body_malformed)" by simp
  have h2: "JSON_parse ex_gateway (concat (chunks (ex_request ex_body_malformed))) = Inl ex_syntax_error"
    by (simp add: parse_examples)
  show ?thesis
    using h1 h2 malformed_json_gets_500 [OF h1 h2]
    by (simp add: json_response_def ex_syntax_error_def)
qed

text \<open>
  The claim as stated asks for a 4xx and never a 5xx; at the truncated body
  \<open>ex_body_malformed\<close> the status is 500.
\<close>

theorem malformed_json_counterexample:
  "authorized_send ex_gateway (ex_request ex_body_malformed) \<and>
   JSON_parse ex_gateway (concat (chunks (ex_request ex_body_malformed))) = Inl ex_syntax_error \<and>
   code (response (handle_request ex_gateway (ex_request ex_body_malformed))) = 500"
  by (simp add: handle_authorized_send parse_examples post_send_def)

subsection \<open>Recipient normalization\<close>

text \<open>
  Claim C6, as the code has it. In an authenticated \<^verbatim>\<open>POST /send\<close> whose \<^verbatim>\<open>to\<close> is a
  string, whenever the session is asked to send, the chat id it is given is \<^verbatim>\<open>to\<close>
  with \<^verbatim>\<open>@c.us\<close> appended if \<^verbatim>\<open>to\<close> contains neither \<^verbatim>\<open>@c.us\<close> nor \<^verbatim>\<open>@g.us\<close>
  anywhere, and \<^verbatim>\<open>to\<close> unchanged otherwise; and for a text message with a non-empty
  \<^verbatim>\<open>to\<close> and a truthy \<^verbatim>\<open>message\<close> the session is asked exactly once, with that id.
  The test is for a substring, not for a suffix.
\<close>

theorem recipient_gets_direct_chat_suffix:
  assumes "authorized_send g req"
    and "JSON_parse g (concat (chunks req)) = Inr data"
    and "field_of data ''to'' = Some (JStr t)"
  shows "list_all
           (\<lambda>call. fst call =
              Some (JStr (if str_includes t ''@c.us'' \<or> str_includes t ''@g.us'' then t else t @ ''@c.us'')))
           (sent (handle_request g req)) \<and>
         (t \<noteq> [] \<and> truthy (field_of data ''message'') \<and>
          (field_of data ''type'' = None \<or> field_of data ''type'' = Some (JStr ''text'')) \<longrightarrow>
          sent (handle_request g req) =
            [(Some (JStr (if str_includes t ''@c.us'' \<or> str_includes t ''@g.us'' then t else t @ ''@c.us'')),
              TextContent (field_of data ''message''))])"
proof -
  have h: "handle_request g req = post_send g (concat (chunks req))"
    using assms(1) by (rule handle_authorized_send)
  have calls: "list_all
           (\<lambda>call. fst call =
              Some (JStr (if str_includes t ''@c.us'' \<or> str_includes t ''@g.us'' then t else t @ ''@c.us'')))
           (sent (post_send g (concat (chunks req))))"
    using post_send_calls [OF assms(2)] assms(3) by (auto simp: format_string)
  have txt_case: "sent (post_send g (concat (chunks req))) =
            [(Some (JStr (if str_includes t ''@c.us'' \<or> str_includes t ''@g.us'' then t else t @ ''@c.us'')),
              TextContent (field_of data ''message''))]"
    if "t \<noteq> []" and "truthy (field_of data ''message'')"
      and "field_of data ''type'' = None \<or> field_of data ''type'' = Some (JStr ''text'')"
  proof -
    have "truthy (field_of data ''to'')" using assms(3) that(1) by simp
    from post_send_text [OF assms(2) this that(2) _ that(3)] assms(3) show ?thesis
      by (simp add: format_string)
  qed
  show ?thesis using calls txt_case by (simp add: h)
qed

theorem recipient_witness:
  "authorized_send ex_gateway (ex_request ex_body_text) \<and>
   JSON_parse ex_gateway (concat (chunks (ex_request ex_body_text))) = Inr ex_data_text \<and>
   field_of ex_data_text ''to'' = Some (JStr ''15551234567'') \<and>
   sent (handle_request ex_gateway (ex_request ex_body_text)) =
     [(Some (JStr ''15551234567@c.us''), TextContent (Some (JStr ''hi'')))] \<and>
   sent (handle_request ex_gateway (ex_request ex_body_group)) =
     [(Some (JStr ''abc@g.us''), TextContent (Some (JStr ''hi'')))]"
proof -
  have h1: "authorized_send ex_gateway (ex_request b)" for b by simp
  have h2: "JSON_parse ex_gateway (concat (chunks (ex_request ex_body_text))) = Inr ex_data_text"
    by (simp add: parse_examples)
  have h3: "field_of ex_data_text ''to'' = Some (JStr ''15551234567'')"
    by (simp add: ex_data_text_def field_of_def)
  have g2: "JSON_parse ex_gateway (concat (chunks (ex_request ex_body_group))) = Inr ex_data_group"
    by (simp add: parse_examples)
  have g3: "field_of ex_data_group ''to'' = Some (JStr ''abc@g.us'')"
    by (simp add: ex_data_group_def field_of_def)
  show ?thesis
    using h1 h2 h3 recipient_gets_direct_chat_suffix [OF h1 h2 h3]
      recipient_gets_direct_chat_suffix [OF h1 g2 g3]
    by (simp add: ex_data_text_def ex_data_group_def field_of_def)
qed

text \<open>
  The claim as stated appends the suffix whenever \<^verbatim>\<open>to\<close> lacks a recognized domain
  suffix. The recipient \<^verbatim>\<open>15551234567@c.us.example.org\<close> ends with neither \<^verbatim>\<open>@c.us\<close>
  nor \<^verbatim>\<open>@g.us\<close>, and it is handed to the session as it is.
\<close>

theorem recipient_suffix_counterexample:
  "authorized_send ex_gateway (ex_request ex_body_embedded) \<and>
   \<not> suffix ''@c.us'' ''15551234567@c.us.example.org'' \<and>
   \<not> suffix ''@g.us'' ''15551234567@c.us.example.org'' \<and>
   sent (handle_request ex_gateway (ex_request ex_body_embedded)) =
     [(Some (JStr ''15551234567@c.us.example.org''), TextContent (Some (JStr ''hi'')))]"
proof -
  have p: "JSON_parse ex_gateway (concat (chunks (ex_request ex_body_embedded))) = Inr ex_data_embedded"
    by (simp add: parse_examples)
  have f: "format_phone_number ex_gateway (field_of ex_data_embedded ''to'') =
      Inr (Some (JStr ''15551234567@c.us.example.org''))"
    by (simp add: ex_data_embedded_def field_of_def format_string)
  have "post_send ex_gateway (concat (chunks (ex_request ex_body_embedded))) =
      send_and_report ex_gateway (Some (JStr ''15551234567@c.us.example.org''))
        (TextContent (field_of ex_data_embedded ''message''))"
    by (rule post_send_text [OF p _ _ f]) (simp_all add: ex_data_embedded_def field_of_def)
  then show ?thesis
    by (simp add: handle_authorized_send suffix_to_prefix ex_data_embedded_def field_of_def)
qed

subsection \<open>Location messages\<close>

text \<open>
  Claim C8, as the code has it. In an authenticated \<^verbatim>\<open>POST /send\<close> with
  \<^verbatim>\<open>type = "location"\<close> whose body lacks \<^verbatim>\<open>latitude\<close> or lacks \<^verbatim>\<open>longitude\<close>, the
  session is never asked to send; and when \<^verbatim>\<open>to\<close> is a non-empty string or an array
  and \<^verbatim>\<open>message\<close> is truthy, the answer is 400 with the body
  \<^verbatim>\<open>{error: "Location requires latitude and longitude"}\<close>. (The required-fields check
  and the recipient formatting come first, and answer a request that fails them.)
\<close>

theorem location_without_coordinates_is_rejected:
  assumes "authorized_send g req"
    and "JSON_parse g (concat (chunks req)) = Inr data"
    and "field_of data ''type'' = Some (JStr ''location'')"
    and "field_of data ''latitude'' = None \<or> field_of data ''longitude'' = None"
  shows "sent (handle_request g req) = [] \<and>
         (truthy (field_of data ''to'') \<and> has_includes (field_of data ''to'') \<and>
          truthy (field_of data ''message'') \<longrightarrow>
          response (handle_request g req) =
            json_response 400 [(''error'', JStr ''Location requires latitude and longitude'')])"
proof -
  have h: "handle_request g req = post_send g (concat (chunks req))"
    using assms(1) by (rule handle_authorized_send)
  have falsy: "\<not> truthy (field_of data ''latitude'') \<or> \<not> truthy (field_of data ''longitude'')"
    using assms(4) by auto
  have none: "sent (post_send g (concat (chunks req))) = []"
    by (rule post_send_location_no_call [OF assms(2,3) falsy])
  have rejected: "response (post_send g (concat (chunks req))) =
      json_response 400 [(''error'', JStr ''Location requires latitude and longitude'')]"
    if "truthy (field_of data ''to'')" and "has_includes (field_of data ''to'')"
      and "truthy (field_of data ''message'')"
  proof -
    from that(2) obtain p where "format_phone_number g (field_of data ''to'') = Inr p"
      by (rule format_has_includes)
    from post_send_location [OF assms(2) that(1,3) this assms(3)] falsy show ?thesis by auto
  qed
  show ?thesis using none rejected by (simp add: h)
qed

theorem location_without_coordinates_witness:
  "authorized_send ex_gateway (ex_request ex_body_location_no_latitude) \<and>
   JSON_parse ex_gateway (concat (chunks (ex_request ex_body_location_no_latitude))) =
     Inr ex_data_location_no_latitude \<and>
   field_of ex_data_location_no_latitude ''type'' = Some (JStr ''location'') \<and>
   field_of ex_data_location_no_latitude ''latitude'' = None \<and>
   truthy (field_of ex_data_location_no_latitude ''to'') \<and>
   has_includes (field_of ex_data_location_no_latitude ''to'') \<and>
   truthy (field_of ex_data_location_no_latitude ''message'') \<and>
   sent (handle_request ex_gateway (ex_request ex_body_location_no_latitude)) = [] \<and>
   response (handle_request ex_gateway (ex_request ex_body_location_no_latitude)) =
     json_response 400 [(''error'', JStr ''Location requires latitude and longitude'')]"
proof -
  have h1: "authorized_send ex_gateway (ex_request ex_body_location_no_latitude)" by simp
  have h2: "JSON_parse ex_gateway (concat (chunks (ex_request ex_body_location_no_latitude))) =
      Inr ex_data_location_no_latitude"
    by (simp add: parse_examples)
  have h3: "field_of ex_data_location_no_latitude ''type'' = Some (JStr ''location'')"
    by (simp add: ex_data_location_no_latitude_def field_of_def)
  have h4: "field_of ex_data_location_no_latitude ''latitude'' = None \<or>
      field_of ex_data_location_no_latitude ''longitude'' = None"
    by (simp add: ex_data_location_no_latitude_def field_of_def)
  have h5: "truthy (field_of ex_data_location_no_latitude ''to'')"
    "has_includes (field_of ex_data_location_no_latitude ''to'')"
    "truthy (field_of ex_data_location_no_latitude ''message'')"
    "field_of ex_data_location_no_latitude ''latitude'' = None"
    by (simp_all add: ex_data_location_no_latitude_def field_of_def)
  show ?thesis
    using h1 h2 h3 h5 location_without_coordinates_is_rejected [OF h1 h2 h3 h4]
    by simp
qed

text \<open>
  The claim as stated promises that answer to every such request. Two requests that lack
  \<^verbatim>\<open>latitude\<close> get another one. Without \<^verbatim>\<open>to\<close>, the required-fields check answers
  first, with its own 400 body. With the recipient given as the JSON number 15551234567
  (\<^verbatim>\<open>to\<close> and \<^verbatim>\<open>message\<close> both present), formatting the recipient throws before the
  type is looked at, and the answer is 500.
\<close>

theorem location_without_coordinates_counterexample:
  "authorized_send ex_gateway (ex_request ex_body_location_no_recipient) \<and>
   JSON_parse ex_gateway (concat (chunks (ex_request ex_body_location_no_recipient))) =
     Inr ex_data_location_no_recipient \<and>
   field_of ex_data_location_no_recipient ''type'' = Some (JStr ''location'') \<and>
   field_of ex_data_location_no_recipient ''latitude'' = None \<and>
   response (handle_request ex_gateway (ex_request ex_body_location_no_recipient)) =
     json_response 400 [(''error'', JStr ''Missing required fields: to, message'')] \<and>
   authorized_send ex_gateway (ex_request ex_body_location_numeric_to) \<and>
   JSON_parse ex_gateway (concat (chunks (ex_request ex_body_location_numeric_to))) =
     Inr ex_data_location_numeric_to \<and>
   field_of ex_data_location_numeric_to ''type'' = Some (JStr ''location'') \<and>
   field_of ex_data_location_numeric_to ''latitude'' = None \<and>
   code (response (handle_request ex_gateway (ex_request ex_body_location_numeric_to))) = 500"
proof -
  have q: "JSON_parse ex_gateway (concat (chunks (ex_request ex_body_location_no_recipient))) =
      Inr ex_data_location_no_recipient"
    by (simp add: parse_examples)
  have "post_send ex_gateway (concat (chunks (ex_request ex_body_location_no_recipient))) =
      respond (json_response 400 [(''error'', JStr ''Missing required fields: to, message'')])"
    using post_send_missing [OF q] by (simp add: ex_data_location_no_recipient_def field_of_def)
  then have missing:
    "response (handle_request ex_gateway (ex_request ex_body_location_no_recipient)) =
       json_response 400 [(''error'', JStr ''Missing required fields: to, message'')]"
    by (simp add: handle_authorized_send)
  have p: "JSON_parse ex_gateway (concat (chunks (ex_request ex_body_location_numeric_to))) =
      Inr ex_data_location_numeric_to"
    by (simp add: parse_examples)
  have f: "format_phone_number ex_gateway (field_of ex_data_location_numeric_to ''to'') = Inl not_a_function"
    by (simp add: ex_data_location_numeric_to_def field_of_def format_phone_number_def)
  have "post_send ex_gateway (concat (chunks (ex_request ex_body_location_numeric_to))) =
      send_failed not_a_function []"
    by (rule post_send_throws [OF p _ _ f]) (simp_all add: ex_data_location_numeric_to_def field_of_def)
  then have thrown:
    "code (response (handle_request ex_gateway (ex_request ex_body_location_numeric_to))) = 500"
    by (simp add: handle_authorized_send)
  show ?thesis
    using p q missing thrown
    by (simp add: ex_data_location_numeric_to_def ex_data_location_no_recipient_def field_of_def)
qed

subsection \<open>Truthiness of the required fields\<close>

text \<open>
  Claim C10, as the code has it. In an authenticated \<^verbatim>\<open>POST /send\<close> whose body parses,
  the fields are tested by truthiness, not by presence. A \<^verbatim>\<open>to\<close> or a \<^verbatim>\<open>message\<close>
  that is present but is the empty string gets 400 with
  \<^verbatim>\<open>{error: "Missing required fields: to, message"}\<close>. A location request whose \<^verbatim>\<open>to\<close>
  is a non-empty string or an array and whose \<^verbatim>\<open>message\<close> is truthy, with
  \<^verbatim>\<open>latitude = 0\<close> or \<^verbatim>\<open>longitude = 0\<close>, gets 400 with
  \<^verbatim>\<open>{error: "Location requires latitude and longitude"}\<close>. In both cases the session is
  not asked to send.
\<close>

theorem fields_are_tested_by_truthiness:
  assumes "authorized_send g req"
    and "JSON_parse g (concat (chunks req)) = Inr data"
  shows "(field_of data ''to'' = Some (JStr []) \<or> field_of data ''message'' = Some (JStr []) \<longrightarrow>
          response (handle_request g req) =
            json_response 400 [(''error'', JStr ''Missing required fields: to, message'')] \<and>
          sent (handle_request g req) = []) \<and>
         (field_of data ''type'' = Some (JStr ''location'') \<and>
          (field_of data ''latitude'' = Some (JNum (Finite 0)) \<or>
           field_of data ''longitude'' = Some (JNum (Finite 0))) \<and>
          truthy (field_of data ''to'') \<and> has_includes (field_of data ''to'') \<and>
          truthy (field_of data ''message'') \<longrightarrow>
          response (handle_request g req) =
            json_response 400 [(''error'', JStr ''Location requires latitude and longitude'')] \<and>
          sent (handle_request g req) = [])"
proof -
  have h: "handle_request g req = post_send g (concat (chunks req))"
    using assms(1) by (rule handle_authorized_send)
  have empty: "post_send g (concat (chunks req)) =
      respond (json_response 400 [(''error'', JStr ''Missing required fields: to, message'')])"
    if "field_of data ''to'' = Some (JStr []) \<or> field_of data ''message'' = Some (JStr [])"
  proof -
    from that have "data \<noteq> JNull" by (auto simp: field_of_def)
    moreover from that have "\<not> truthy (field_of data ''to'') \<or> \<not> truthy (field_of data ''message'')"
      by auto
    ultimately show ?thesis using post_send_missing [OF assms(2)] by simp
  qed
  have zero: "post_send g (concat (chunks req)) =
      respond (json_response 400 [(''error'', JStr ''Location requires latitude and longitude'')])"
    if "field_of data ''type'' = Some (JStr ''location'')"
      and "field_of data ''latitude'' = Some (JNum (Finite 0)) \<or>
           field_of data ''longitude'' = Some (JNum (Finite 0))"
      and "truthy (field_of data ''to'')" and "has_includes (field_of data ''to'')"
      and "truthy (field_of data ''message'')"
  proof -
    from that(4) obtain p where "format_phone_number g (field_of data ''to'') = Inr p"
      by (rule format_has_includes)
    moreover from that(2)
    have "\<not> truthy (field_of data ''latitude'') \<or> \<not> truthy (field_of data ''longitude'')"
      by auto
    ultimately show ?thesis
      using post_send_location [OF assms(2) that(3,5) _ that(1)] by auto
  qed
  show ?thesis using empty zero by (auto simp: h)
qed

theorem fields_are_tested_by_truthiness_witness:
  "authorized_send ex_gateway (ex_request ex_body_empty_to) \<and>
   JSON_parse ex_gateway (concat (chunks (ex_request ex_body_empty_to))) = Inr ex_data_empty_to \<and>
   field_of ex_data_empty_to ''to'' = Some (JStr []) \<and>
   response (handle_request ex_gateway (ex_request ex_body_empty_to)) =
     json_response 400 [(''error'', JStr ''Missing required fields: to, message'')] \<and>
   sent (handle_request ex_gateway (ex_request ex_body_empty_to)) = [] \<and>
   JSON_parse ex_gateway (concat (chunks (ex_request ex_body_location_zero))) = Inr ex_data_location_zero \<and>
   field_of ex_data_location_zero ''type'' = Some (JStr ''location'') \<and>
   field_of ex_data_location_zero ''latitude'' = Some (JNum (Finite 0)) \<and>
   truthy (field_of ex_data_location_zero ''to'') \<and> has_includes (field_of ex_data_location_zero ''to'') \<and>
   truthy (field_of ex_data_location_zero ''message'') \<and>
   response (handle_request ex_gateway (ex_request ex_body_location_zero)) =
     json_response 400 [(''error'', JStr ''Location requires latitude and longitude'')] \<and>
   sent (handle_request ex_gateway (ex_request ex_body_location_zero)) = []"
proof -
  have h1: "authorized_send ex_gateway (ex_request b)" for b by simp
  have e2: "JSON_parse ex_gateway (concat (chunks (ex_request ex_body_empty_to))) = Inr ex_data_empty_to"
    by (simp add: parse_examples)
  have e3: "field_of ex_data_empty_to ''to'' = Some (JStr [])"
    by (simp add: ex_data_empty_to_def field_of_def)
  have z2: "JSON_parse ex_gateway (concat (chunks (ex_request ex_body_location_zero))) = Inr ex_data_location_zero"
    by (simp add: parse_examples)
  have z3: "field_of ex_data_location_zero ''type'' = Some (JStr ''location'')"
    "field_of ex_data_location_zero ''latitude'' = Some (JNum (Finite 0))"
    "truthy (field_of ex_data_location_zero ''to'')" "has_includes (field_of ex_data_location_zero ''to'')"
    "truthy (field_of ex_data_location_zero ''message'')"
    by (simp_all add: ex_data_location_zero_def field_of_def)
  show ?thesis
    using h1 e2 e3 z2 z3 fields_are_tested_by_truthiness [OF h1 e2]
      fields_are_tested_by_truthiness [OF h1 z2]
    by simp
qed

text \<open>
  The claim as stated promises the location error to every location request with
  \<^verbatim>\<open>latitude = 0\<close>. Two such requests get another answer. Without \<^verbatim>\<open>message\<close>, the
  required-fields check answers first, with its own 400 body. With the recipient given
  as the JSON number 15551234567 (\<^verbatim>\<open>to\<close> present and truthy, \<^verbatim>\<open>message\<close> present),
  the answer is 500.
\<close>

theorem fields_are_tested_by_truthiness_counterexample:
  "authorized_send ex_gateway (ex_request ex_body_location_zero_no_message) \<and>
   JSON_parse ex_gateway (concat (chunks (ex_request ex_body_location_zero_no_message))) =
     Inr ex_data_location_zero_no_message \<and>
   field_of ex_data_location_zero_no_message ''type'' = Some (JStr ''location'') \<and>
   field_of ex_data_location_zero_no_message ''latitude'' = Some (JNum (Finite 0)) \<and>
   response (handle_request ex_gateway (ex_request ex_body_location_zero_no_message)) =
     json_response 400 [(''error'', JStr ''Missing required fields: to, message'')] \<and>
   authorized_send ex_gateway (ex_request ex_body_location_zero_numeric_to) \<and>
   JSON_parse ex_gateway (concat (chunks (ex_request ex_body_location_zero_numeric_to))) =
     Inr ex_data_location_zero_numeric_to \<and>
   field_of ex_data_location_zero_numeric_to ''type'' = Some (JStr ''location'') \<and>
   field_of ex_data_location_zero_numeric_to ''latitude'' = Some (JNum (Finite 0)) \<and>
   truthy (field_of ex_data_location_zero_numeric_to ''to'') \<and>
   truthy (field_of ex_data_location_zero_numeric_to ''message'') \<and>
   code (response (handle_request ex_gateway (ex_request ex_body_location_zero_numeric_to))) = 500"
proof -
  have q: "JSON_parse ex_gateway (concat (chunks (ex_request ex_body_location_zero_no_message))) =
      Inr ex_data_location_zero_no_message"
    by (simp add: parse_examples)
  have "post_send ex_gateway (concat (chunks (ex_request ex_body_location_zero_no_message))) =
      respond (json_response 400 [(''error'', JStr ''Missing required fields: to, message'')])"
    using post_send_missing [OF q] by (simp add: ex_data_location_zero_no_message_def field_of_def)
  then have missing:
    "response (handle_request ex_gateway (ex_request ex_body_location_zero_no_message)) =
       json_response 400 [(''error'', JStr ''Missing required fields: to, message'')]"
    by (simp add: handle_authorized_send)
  have p: "JSON_parse ex_gateway (concat (chunks (ex_request ex_body_location_zero_numeric_to))) =
      Inr ex_data_location_zero_numeric_to"
    by (simp add: parse_examples)
  have f: "format_phone_number ex_gateway (field_of ex_data_location_zero_numeric_to ''to'') =
      Inl not_a_function"
    by (simp add: ex_data_location_zero_numeric_to_def field_of_def format_phone_number_def)
  have "post_send ex_gateway (concat (chunks (ex_request ex_body_location_zero_numeric_to))) =
      send_failed not_a_function []"
    by (rule post_send_throws [OF p _ _ f])
       (simp_all add: ex_data_location_zero_numeric_to_def field_of_def)
  then have thrown:
    "code (response (handle_request ex_gateway (ex_request ex_body_location_zero_numeric_to))) = 500"
    by (simp add: handle_authorized_send)
  show ?thesis
    using p q missing thrown
    by (simp add: ex_data_location_zero_numeric_to_def ex_data_location_zero_no_message_def field_of_def)
qed

end
